theory Spec2Isabelle
  imports Main "HOL-Library.AList"
begin

section \<open>JavaScript values and string helpers\<close>

text \<open>
  Values that reach the services as parsed JSON, and the object literals the services build.
  Object keys keep their insertion order, so an object is an association list.
  Numbers are integers: fractional numbers are not modelled.
  A string is a list of characters, each one UTF-16 code unit below 256 (the Latin-1 range,
  in which Node's HTTP parser delivers header values); code units from 256 on are not
  modelled.
\<close>

datatype json =
    JUndefined
  | JNull
  | JBool bool
  | JNum int
  | JStr string
  | JArr "json list"
  | JObj "(string \<times> json) list"

text \<open>Errors that can be thrown or passed to a \<open>catch\<close> block. \<open>AxiosError\<close> carries
  \<open>error.response?.status\<close>, \<open>error.code\<close> and \<open>error.message\<close>; \<open>ThrownValue\<close> is a
  thrown value that is not an instance of \<open>Error\<close>. The text of an engine-made
  \<open>TypeError\<close> is a description, not the engine's wording.\<close>

datatype js_error =
    Error string
  | TypeError string
  | AxiosError "nat option" "string option" string
  | ThrownValue

text \<open>\<open>error instanceof Error ? error.message : "Unknown error"\<close>\<close>

fun errorMessage :: "js_error \<Rightarrow> string" where
  "errorMessage (Error m) = m"
| "errorMessage (TypeError m) = m"
| "errorMessage (AxiosError st code m) = m"
| "errorMessage ThrownValue = ''Unknown error''"

fun truthy :: "json \<Rightarrow> bool" where
  "truthy JUndefined = False"
| "truthy JNull = False"
| "truthy (JBool b) = b"
| "truthy (JNum n) = (n \<noteq> 0)"
| "truthy (JStr s) = (s \<noteq> [])"
| "truthy (JArr xs) = True"
| "truthy (JObj kvs) = True"

fun nullish :: "json \<Rightarrow> bool" where
  "nullish JUndefined = True"
| "nullish JNull = True"
| "nullish v = False"

text \<open>\<open>a || b\<close> on values.\<close>

definition jsOr :: "json \<Rightarrow> json \<Rightarrow> json" where
  "jsOr a b = (if truthy a then a else b)"

text \<open>Property read \<open>v.k\<close> for the keys the services read (none of them is a prototype
  property): a missing key and a read on a primitive or an array give \<open>undefined\<close>.
  A read on \<open>null\<close> or \<open>undefined\<close> throws; the callers below model that throw where the
  source can reach it.\<close>

fun getProp :: "json \<Rightarrow> string \<Rightarrow> json" where
  "getProp (JObj kvs) k = (case map_of kvs k of Some v \<Rightarrow> v | None \<Rightarrow> JUndefined)"
| "getProp v k = JUndefined"

text \<open>Decimal rendering of an integer, as \<open>Number.prototype.toString\<close> gives it.\<close>

definition digitChar :: "nat \<Rightarrow> char" where
  "digitChar d = char_of (48 + d)"

function showNat :: "nat \<Rightarrow> string" where
  "showNat n = (if n < 10 then [digitChar n] else showNat (n div 10) @ [digitChar (n mod 10)])"
  by pat_completeness auto
termination
  by (relation "measure id") auto

definition showInt :: "int \<Rightarrow> string" where
  "showInt i = (if i < 0 then CHR ''-'' # showNat (nat (- i)) else showNat (nat i))"

fun joinWith :: "string \<Rightarrow> string list \<Rightarrow> string" where
  "joinWith sep [] = []"
| "joinWith sep [s] = s"
| "joinWith sep (s # t # ss) = s @ sep @ joinWith sep (t # ss)"

text \<open>\<open>v.toString()\<close> on a value that is not \<open>null\<close>/\<open>undefined\<close>. \<open>None\<close> is the
  \<open>TypeError\<close> of calling an own \<open>toString\<close> property, which in parsed JSON is never a
  function. Inside an array, \<open>join\<close> renders \<open>null\<close> and \<open>undefined\<close> as the empty string.\<close>

fun jsToString :: "json \<Rightarrow> string option"
  and joinElems :: "json list \<Rightarrow> string list option" where
  "jsToString JUndefined = None"
| "jsToString JNull = None"
| "jsToString (JBool b) = Some (if b then ''true'' else ''false'')"
| "jsToString (JNum n) = Some (showInt n)"
| "jsToString (JStr s) = Some s"
| "jsToString (JArr xs) = map_option (joinWith '','') (joinElems xs)"
| "jsToString (JObj kvs) =
     (if map_of kvs ''toString'' = None then Some ''[object Object]'' else None)"
| "joinElems [] = Some []"
| "joinElems (x # xs) =
     (case (if nullish x then Some [] else jsToString x) of
        None \<Rightarrow> None
      | Some s \<Rightarrow> (case joinElems xs of None \<Rightarrow> None | Some ss \<Rightarrow> Some (s # ss)))"

text \<open>\<open>v?.toString()\<close>: \<open>undefined\<close> for a nullish receiver.\<close>

definition optToString :: "json \<Rightarrow> js_error + json" where
  "optToString v =
     (if nullish v then Inr JUndefined
      else (case jsToString v of
              None \<Rightarrow> Inl (TypeError ''toString is not a function'')
            | Some s \<Rightarrow> Inr (JStr s)))"

definition startsWith :: "string \<Rightarrow> string \<Rightarrow> bool" where
  "startsWith s p = (take (length p) s = p)"

text \<open>\<open>s.split(c)\<close> for a one-character separator: always at least one piece.\<close>

fun js_split :: "char \<Rightarrow> string \<Rightarrow> string list" where
  "js_split c [] = [[]]"
| "js_split c (x # xs) =
     (if x = c then [] # js_split c xs
      else (case js_split c xs of [] \<Rightarrow> [[x]] | y # ys \<Rightarrow> (x # y) # ys))"

text \<open>\<open>s.trim()\<close> removes white space and line terminators at both ends. Below 256 these
  are the space, tab, line feed, vertical tab, form feed, carriage return and the no-break
  space U+00A0.\<close>

definition isSpace :: "char \<Rightarrow> bool" where
  "isSpace c = (c = CHR '' '' \<or> c = CHR 0x09 \<or> c = CHR 0x0A \<or> c = CHR 0x0B
                \<or> c = CHR 0x0C \<or> c = CHR 0x0D \<or> c = CHR 0xA0)"

definition trim :: "string \<Rightarrow> string" where
  "trim s = rev (dropWhile isSpace (rev (dropWhile isSpace s)))"

text \<open>\<open>s.replace(pat, rep)\<close> with string arguments: the first occurrence only.\<close>

fun replaceFirst :: "string \<Rightarrow> string \<Rightarrow> string \<Rightarrow> string" where
  "replaceFirst pat rep [] = (if pat = [] then rep else [])"
| "replaceFirst pat rep (x # xs) =
     (if startsWith (x # xs) pat then rep @ drop (length pat) (x # xs)
      else x # replaceFirst pat rep xs)"

text \<open>\<open>encodeURIComponent\<close>: the unreserved characters stay, and every other character is
  written as the \<open>%XX\<close> escapes of its UTF-8 bytes: one byte below 128, two bytes from 128
  to 255.\<close>

definition unreserved :: "char \<Rightarrow> bool" where
  "unreserved c =
     (let n = of_char c :: nat in
        (65 \<le> n \<and> n \<le> 90) \<or> (97 \<le> n \<and> n \<le> 122) \<or> (48 \<le> n \<and> n \<le> 57)
        \<or> c \<in> set ''-_.!~*()'' \<or> n = 39)"

definition hexDigit :: "nat \<Rightarrow> char" where
  "hexDigit d = (if d < 10 then char_of (48 + d) else char_of (55 + d))"

definition percent :: "nat \<Rightarrow> string" where
  "percent b = [CHR ''%'', hexDigit (b div 16), hexDigit (b mod 16)]"

definition encodeURIComponent :: "string \<Rightarrow> string" where
  "encodeURIComponent s =
     concat (map (\<lambda>c. let n = of_char c :: nat
                      in if unreserved c then [c]
                         else if n < 128 then percent n
                         else percent (192 + n div 64) @ percent (128 + n mod 64)) s)"

section \<open>The HTTP collaborator\<close>

text \<open>A request as the services hand it to axios. \<open>body\<close> holds the entries of the
  \<open>URLSearchParams\<close> of a POST; their serialisation is the collaborator's. The collaborator
  is a function from the request to its outcome: the promise resolves with the response
  data or rejects with an error.\<close>

record request =
  httpMethod :: string
  url :: string
  params :: "(string \<times> json) list"
  body :: "(string \<times> string) list"
  headers :: "(string \<times> string) list"
  timeout :: int

datatype http_result = Resolved json | Rejected js_error

type_synonym http = "request \<Rightarrow> http_result"

definition ICONFONT_API_BASE :: string where
  "ICONFONT_API_BASE = ''https://www.iconfont.cn/api''"

definition USER_AGENT :: string where
  "USER_AGENT = ''Mozilla/5.0 (Macintosh; Intel Mac OS X 10_15_7) AppleWebKit/537.36 (KHTML, like Gecko) Chrome/120.0.0.0 Safari/537.36''"

section \<open>IconfontService\<close>

record cache_entry =
  data :: json
  timestamp :: int
  updatedAt :: json

record service =
  cookie :: string
  loggedIn :: bool
  projectDetailCache :: "string \<rightharpoonup> cache_entry"

definition cacheMaxAge :: int where
  "cacheMaxAge = 5 * 60 * 1000"

text \<open>\<open>constructor(cookie?)\<close>; the second argument is \<open>process.env.ICONFONT_COOKIE\<close>.\<close>

definition strOr :: "string option \<Rightarrow> string \<Rightarrow> string" where
  "strOr a b = (case a of None \<Rightarrow> b | Some s \<Rightarrow> if s \<noteq> [] then s else b)"

definition constructor :: "string option \<Rightarrow> string option \<Rightarrow> service" where
  "constructor cookieArg envCookie =
     (let c = strOr cookieArg (strOr envCookie [])
      in \<lparr>cookie = c, loggedIn = (c \<noteq> []), projectDetailCache = Map.empty\<rparr>)"

definition setCookie :: "service \<Rightarrow> string \<Rightarrow> service" where
  "setCookie st c = st\<lparr>cookie := c, loggedIn := True\<rparr>"

definition getCookie :: "service \<Rightarrow> string" where
  "getCookie st = cookie st"

definition getEffectiveCookie :: "service \<Rightarrow> string option \<Rightarrow> string" where
  "getEffectiveCookie st overrideCookie = strOr overrideCookie (cookie st)"

definition getHeaders :: "service \<Rightarrow> string option \<Rightarrow> (string \<times> string) list" where
  "getHeaders st overrideCookie =
     (let c = getEffectiveCookie st overrideCookie;
          cookieValue = (if startsWith c ''EGG_SESS_ICONFONT='' then c
                         else ''EGG_SESS_ICONFONT='' @ c)
      in [(''User-Agent'', USER_AGENT),
          (''Accept'', ''application/json''),
          (''Referer'', ''https://www.iconfont.cn/'')]
         @ (if c \<noteq> [] then [(''Cookie'', cookieValue)] else []))"

definition isLoggedIn :: "service \<Rightarrow> bool" where
  "isLoggedIn st = loggedIn st"

record login_status =
  status_loggedIn :: bool
  hasCookie :: bool

definition getLoginStatus :: "service \<Rightarrow> login_status" where
  "getLoginStatus st = \<lparr>status_loggedIn = loggedIn st, hasCookie = (cookie st \<noteq> [])\<rparr>"

definition clearCache :: "service \<Rightarrow> service" where
  "clearCache st = st\<lparr>projectDetailCache := Map.empty\<rparr>"

subsection \<open>Response shaping shared by the operations\<close>

text \<open>\<open>icon.id?.toString() || icon.icon_id?.toString() || ""\<close>, left to right.\<close>

definition iconIdOf :: "json \<Rightarrow> js_error + json" where
  "iconIdOf icon =
     (case optToString (getProp icon ''id'') of
        Inl e \<Rightarrow> Inl e
      | Inr a \<Rightarrow>
          if truthy a then Inr a
          else (case optToString (getProp icon ''icon_id'') of
                  Inl e \<Rightarrow> Inl e
                | Inr b \<Rightarrow> Inr (jsOr b (JStr []))))"

text \<open>The object literal built from one icon (the callback of \<open>icons.map\<close>, and the
  result of \<open>getIconDetail\<close>). Reading a property of \<open>null\<close> or \<open>undefined\<close> throws.\<close>

definition mapIcon :: "json \<Rightarrow> js_error + json" where
  "mapIcon icon =
     (if nullish icon then Inl (TypeError ''cannot read properties of a nullish value'')
      else (case iconIdOf icon of
              Inl e \<Rightarrow> Inl e
            | Inr i \<Rightarrow>
                Inr (JObj [(''icon_id'', i),
                           (''name'', jsOr (getProp icon ''name'') (JStr [])),
                           (''show_svg'', jsOr (getProp icon ''show_svg'') (JStr [])),
                           (''svg'', jsOr (getProp icon ''svg'')
                                       (jsOr (getProp icon ''show_svg'') (JStr []))),
                           (''font_class'', getProp icon ''font_class''),
                           (''unicode'', getProp icon ''unicode''),
                           (''tags'', jsOr (getProp icon ''tags'') (JArr []))])))"

text \<open>\<open>xs.map(f)\<close> where \<open>f\<close> may throw: the first throw ends the map.\<close>

fun mapAll :: "(json \<Rightarrow> js_error + json) \<Rightarrow> json list \<Rightarrow> js_error + json list" where
  "mapAll f [] = Inr []"
| "mapAll f (x # xs) =
     (case f x of
        Inl e \<Rightarrow> Inl e
      | Inr y \<Rightarrow> (case mapAll f xs of Inl e \<Rightarrow> Inl e | Inr ys \<Rightarrow> Inr (y # ys)))"

text \<open>\<open>(data.data.icons || []).map(...)\<close>: only an array has \<open>map\<close>.\<close>

definition mapIcons :: "json \<Rightarrow> js_error + json" where
  "mapIcons v =
     (case jsOr v (JArr []) of
        JArr xs \<Rightarrow> (case mapAll mapIcon xs of Inl e \<Rightarrow> Inl e | Inr ys \<Rightarrow> Inr (JArr ys))
      | _ \<Rightarrow> Inl (TypeError ''map is not a function''))"

definition searchResult :: "json \<Rightarrow> int \<Rightarrow> int \<Rightarrow> js_error + json" where
  "searchResult dd page pageSize =
     (case mapIcons (getProp dd ''icons'') of
        Inl e \<Rightarrow> Inl e
      | Inr icons \<Rightarrow>
          Inr (JObj [(''total'', jsOr (getProp dd ''total'') (JNum 0)),
                     (''page'', JNum page),
                     (''page_size'', JNum pageSize),
                     (''icons'', icons)]))"

definition emptyResult :: "int \<Rightarrow> int \<Rightarrow> json" where
  "emptyResult page pageSize =
     JObj [(''total'', JNum 0), (''page'', JNum page), (''page_size'', JNum pageSize),
           (''icons'', JArr [])]"

text \<open>\<open>error instanceof AxiosError && (error.response?.status === 401 || ... === 403)\<close>\<close>

fun is401or403 :: "js_error \<Rightarrow> bool" where
  "is401or403 (AxiosError st code m) = (st = Some 401 \<or> st = Some 403)"
| "is401or403 e = False"

text \<open>\<open>error instanceof AxiosError && error.code === "ECONNABORTED"\<close>\<close>

fun isAborted :: "js_error \<Rightarrow> bool" where
  "isAborted (AxiosError st code m) = (code = Some ''ECONNABORTED'')"
| "isAborted e = False"

definition authRequired :: js_error where
  "authRequired = Error ''Authentication required. Please provide Iconfont cookie.''"

text \<open>What an operation gives back: the value the promise fulfils with or the error it
  rejects with, the service afterwards, and the requests handed to the collaborator.\<close>

type_synonym outcome = "(js_error + json) \<times> service \<times> request list"

subsection \<open>searchIcons\<close>

definition searchIcons_catch :: "js_error \<Rightarrow> js_error" where
  "searchIcons_catch e =
     (if is401or403 e
      then Error ''Authentication failed. Please provide a valid Iconfont cookie.''
      else if isAborted e then Error ''Request timed out. Please try again.''
      else Error (''Failed to search icons: '' @ errorMessage e))"

definition searchIcons ::
    "service \<Rightarrow> string \<Rightarrow> string \<Rightarrow> int \<Rightarrow> int \<Rightarrow> int \<Rightarrow> http \<Rightarrow> outcome" where
  "searchIcons st query iconType page pageSize t http =
     (let entries = [(''q'', query), (''sortType'', ''updated_at''),
                     (''page'', showInt page), (''pageSize'', showInt pageSize),
                     (''fromCollection'', ''-1''), (''fills'', []), (''t'', showInt t)]
                    @ (if iconType \<noteq> [] then [(iconType, ''1'')] else []);
          req = \<lparr>httpMethod = ''POST'', url = ICONFONT_API_BASE @ ''/icon/search.json'',
                 params = [], body = entries,
                 headers = AList.update ''Content-Type'' ''application/x-www-form-urlencoded''
                             (getHeaders st None),
                 timeout = 30000\<rparr>
      in (case http req of
            Rejected e \<Rightarrow> (Inl (searchIcons_catch e), st, [req])
          | Resolved d \<Rightarrow>
              if \<not> truthy d \<or> \<not> truthy (getProp d ''data'')
              then (Inr (emptyResult page pageSize), st, [req])
              else (case searchResult (getProp d ''data'') page pageSize of
                      Inl e \<Rightarrow> (Inl (searchIcons_catch e), st, [req])
                    | Inr r \<Rightarrow> (Inr r, st, [req]))))"

subsection \<open>getIconDetail\<close>

definition getIconDetail_catch :: "js_error \<Rightarrow> js_error" where
  "getIconDetail_catch e = Error (''Failed to get icon details: '' @ errorMessage e)"

definition getIconDetail :: "service \<Rightarrow> string \<Rightarrow> http \<Rightarrow> outcome" where
  "getIconDetail st iconId http =
     (let req = \<lparr>httpMethod = ''GET'', url = ICONFONT_API_BASE @ ''/icon/'' @ iconId @ ''.json'',
                 params = [], body = [], headers = getHeaders st None, timeout = 30000\<rparr>
      in (case http req of
            Rejected e \<Rightarrow> (Inl (getIconDetail_catch e), st, [req])
          | Resolved d \<Rightarrow>
              if \<not> truthy d \<or> \<not> truthy (getProp d ''data'')
              then (Inr JNull, st, [req])
              else (case mapIcon (getProp d ''data'') of
                      Inl e \<Rightarrow> (Inl (getIconDetail_catch e), st, [req])
                    | Inr r \<Rightarrow> (Inr r, st, [req]))))"

subsection \<open>listProjects\<close>

text \<open>\<open>[...v]\<close>: an array spreads to its elements, a string to its characters, and any
  other truthy value is not iterable.\<close>

definition spread :: "json \<Rightarrow> js_error + json list" where
  "spread v =
     (case v of
        JArr xs \<Rightarrow> Inr xs
      | JStr s \<Rightarrow> Inr (map (\<lambda>c. JStr [c]) s)
      | _ \<Rightarrow> Inl (TypeError ''value is not iterable''))"

definition mapProject :: "json \<Rightarrow> js_error + json" where
  "mapProject project =
     (if nullish project then Inl (TypeError ''cannot read properties of a nullish value'')
      else (case optToString (getProp project ''id'') of
              Inl e \<Rightarrow> Inl e
            | Inr i \<Rightarrow>
                Inr (JObj [(''id'', jsOr i (JStr [])),
                           (''name'', jsOr (getProp project ''name'') (JStr [])),
                           (''icon_count'', jsOr (getProp project ''icon_count'') (JNum 0)),
                           (''updated_at'', jsOr (getProp project ''updated_at'') (JStr []))])))"

definition allProjects :: "json \<Rightarrow> js_error + json" where
  "allProjects dd =
     (case spread (jsOr (getProp dd ''ownProjects'') (JArr [])) of
        Inl e \<Rightarrow> Inl e
      | Inr own \<Rightarrow>
          (case spread (jsOr (getProp dd ''corpProjects'') (JArr [])) of
             Inl e \<Rightarrow> Inl e
           | Inr corp \<Rightarrow>
               (case mapAll mapProject (own @ corp) of
                  Inl e \<Rightarrow> Inl e
                | Inr ps \<Rightarrow> Inr (JArr ps))))"

definition listProjects_catch :: "js_error \<Rightarrow> js_error" where
  "listProjects_catch e =
     (if is401or403 e
      then Error ''Authentication failed. Please check your Iconfont cookie.''
      else Error (''Failed to list projects: '' @ errorMessage e))"

definition listProjects :: "service \<Rightarrow> string option \<Rightarrow> int \<Rightarrow> http \<Rightarrow> outcome" where
  "listProjects st overrideCookie t http =
     (if getEffectiveCookie st overrideCookie = [] then (Inl authRequired, st, [])
      else
        (let req = \<lparr>httpMethod = ''GET'', url = ICONFONT_API_BASE @ ''/user/myprojects.json'',
                    params = [(''page'', JNum 1), (''t'', JNum t)], body = [],
                    headers = getHeaders st overrideCookie, timeout = 30000\<rparr>
         in (case http req of
               Rejected e \<Rightarrow> (Inl (listProjects_catch e), st, [req])
             | Resolved d \<Rightarrow>
                 if \<not> truthy d \<or> \<not> truthy (getProp d ''data'')
                 then (Inr (JArr []), st, [req])
                 else (case allProjects (getProp d ''data'') of
                         Inl e \<Rightarrow> (Inl (listProjects_catch e), st, [req])
                       | Inr r \<Rightarrow> (Inr r, st, [req])))))"

subsection \<open>getProjectIcons\<close>

definition getProjectIcons_catch :: "js_error \<Rightarrow> js_error" where
  "getProjectIcons_catch e = Error (''Failed to get project icons: '' @ errorMessage e)"

definition getProjectIcons :: "service \<Rightarrow> string \<Rightarrow> int \<Rightarrow> int \<Rightarrow> http \<Rightarrow> outcome" where
  "getProjectIcons st projectId page pageSize http =
     (if cookie st = [] then (Inl authRequired, st, [])
      else
        (let req = \<lparr>httpMethod = ''GET'', url = ICONFONT_API_BASE @ ''/project/symbols.json'',
                    params = [(''id'', JStr projectId), (''page'', JNum page),
                              (''pageSize'', JNum pageSize)],
                    body = [], headers = getHeaders st None, timeout = 30000\<rparr>
         in (case http req of
               Rejected e \<Rightarrow> (Inl (getProjectIcons_catch e), st, [req])
             | Resolved d \<Rightarrow>
                 if \<not> truthy d \<or> \<not> truthy (getProp d ''data'')
                 then (Inr (emptyResult page pageSize), st, [req])
                 else (case searchResult (getProp d ''data'') page pageSize of
                         Inl e \<Rightarrow> (Inl (getProjectIcons_catch e), st, [req])
                       | Inr r \<Rightarrow> (Inr r, st, [req])))))"

subsection \<open>getProjectDetail\<close>

definition getProjectDetail_catch :: "js_error \<Rightarrow> js_error" where
  "getProjectDetail_catch e =
     (if is401or403 e
      then Error ''Authentication failed. Please check your Iconfont cookie.''
      else Error (''Failed to get project detail: '' @ errorMessage e))"

text \<open>The \<open>result\<close> literal, from \<open>data.data\<close> whose \<open>project\<close> is truthy.\<close>

definition detailResult :: "json \<Rightarrow> js_error + json" where
  "detailResult dd =
     (let project = getProp dd ''project'';
          creator = getProp dd ''creator''
      in (case optToString (getProp project ''id'') of
            Inl e \<Rightarrow> Inl e
          | Inr i \<Rightarrow>
              Inr (JObj [(''id'', jsOr i (JStr [])),
                         (''name'', jsOr (getProp project ''name'') (JStr [])),
                         (''icon_count'', jsOr (getProp project ''icon_count'') (JNum 0)),
                         (''font_family'', jsOr (getProp project ''font_family'') (JStr [])),
                         (''created_at'', jsOr (getProp project ''created_at'') (JStr [])),
                         (''updated_at'', jsOr (getProp project ''updated_at'') (JStr [])),
                         (''username'',
                            jsOr (if nullish creator then JUndefined
                                  else getProp creator ''username'') (JStr []))])))"

text \<open>The \<open>try\<close> block of \<open>getProjectDetail\<close>: the request, the shape check (whose throw
  is caught by the same \<open>catch\<close>), the result and the cache write. \<open>now\<close> is the clock
  read before the cache lookup, \<open>t\<close> the one read for the request parameter.\<close>

definition fetchProjectDetail ::
    "service \<Rightarrow> string \<Rightarrow> string option \<Rightarrow> int \<Rightarrow> int \<Rightarrow> http \<Rightarrow> outcome" where
  "fetchProjectDetail st projectId overrideCookie now t http =
     (let req = \<lparr>httpMethod = ''GET'', url = ICONFONT_API_BASE @ ''/project/detail.json'',
                 params = [(''pid'', JStr projectId), (''t'', JNum t)], body = [],
                 headers = getHeaders st overrideCookie, timeout = 30000\<rparr>
      in (case http req of
            Rejected e \<Rightarrow> (Inl (getProjectDetail_catch e), st, [req])
          | Resolved d \<Rightarrow>
              if \<not> truthy d \<or> \<not> truthy (getProp d ''data'')
                 \<or> \<not> truthy (getProp (getProp d ''data'') ''project'')
              then (Inl (getProjectDetail_catch
                           (Error ''Failed to get project detail: invalid response'')),
                    st, [req])
              else (case detailResult (getProp d ''data'') of
                      Inl e \<Rightarrow> (Inl (getProjectDetail_catch e), st, [req])
                    | Inr result \<Rightarrow>
                        (Inr result,
                         st\<lparr>projectDetailCache := (projectDetailCache st)(projectId \<mapsto>
                               \<lparr>data = result, timestamp = now,
                                updatedAt = getProp result ''updated_at''\<rparr>)\<rparr>,
                         [req]))))"

definition getProjectDetail ::
    "service \<Rightarrow> string \<Rightarrow> string option \<Rightarrow> bool \<Rightarrow> int \<Rightarrow> int \<Rightarrow> http \<Rightarrow> outcome" where
  "getProjectDetail st projectId overrideCookie forceRefresh now t http =
     (if getEffectiveCookie st overrideCookie = [] then (Inl authRequired, st, [])
      else (case projectDetailCache st projectId of
              Some cached \<Rightarrow>
                if \<not> forceRefresh \<and> now - timestamp cached < cacheMaxAge
                then (Inr (data cached), st, [])
                else fetchProjectDetail st projectId overrideCookie now t http
            | None \<Rightarrow> fetchProjectDetail st projectId overrideCookie now t http))"

subsection \<open>searchProjectIcons\<close>

definition searchProjectIcons_catch :: "js_error \<Rightarrow> js_error" where
  "searchProjectIcons_catch e =
     (if is401or403 e
      then Error ''Authentication failed. Please check your Iconfont cookie.''
      else Error (''Failed to search project icons: '' @ errorMessage e))"

definition searchProjectIcons ::
    "service \<Rightarrow> string \<Rightarrow> string \<Rightarrow> string option \<Rightarrow> int \<Rightarrow> int \<Rightarrow> http \<Rightarrow> outcome" where
  "searchProjectIcons st projectId keyword overrideCookie page t http =
     (if getEffectiveCookie st overrideCookie = [] then (Inl authRequired, st, [])
      else
        (let referer = ''https://www.iconfont.cn/manage/index?manage_type=myprojects&projectId=''
                       @ projectId @ ''&keyword='' @ encodeURIComponent keyword
                       @ ''&page='' @ showInt page;
             req = \<lparr>httpMethod = ''GET'', url = ICONFONT_API_BASE @ ''/project/detail.json'',
                    params = [(''pid'', JStr projectId), (''keyword'', JStr keyword),
                              (''page'', JNum page), (''t'', JNum t)],
                    body = [],
                    headers = AList.update ''Referer'' referer (getHeaders st overrideCookie),
                    timeout = 30000\<rparr>
         in (case http req of
               Rejected e \<Rightarrow> (Inl (searchProjectIcons_catch e), st, [req])
             | Resolved d \<Rightarrow>
                 if \<not> truthy d \<or> \<not> truthy (getProp d ''data'')
                 then (Inr (emptyResult page 54), st, [req])
                 else (case searchResult (getProp d ''data'') page 54 of
                         Inl e \<Rightarrow> (Inl (searchProjectIcons_catch e), st, [req])
                       | Inr r \<Rightarrow> (Inr r, st, [req])))))"

section \<open>IconfontLoginService\<close>

definition LOGIN_CHECK_INTERVAL :: int where
  "LOGIN_CHECK_INTERVAL = 3000"

definition loginTimeout :: js_error where
  "loginTimeout = Error ''Login timeout. Please try again.''"

text \<open>The two handles of the service; a handle is a number naming the resource.\<close>

record login_service =
  browser :: "nat option"
  page :: "nat option"

text \<open>Effects on the browser collaborator, in the order they happen.\<close>

datatype event = Launched nat | BrowserClosed nat

text \<open>What one read of the cookie jar gives (\<open>page.cookies()\<close>: name and value of each
  cookie, or a rejection), and what one probe request gives (the \<open>set-cookie\<close> header of
  the response, or a rejection).\<close>

datatype poll = Cookies "(string \<times> string) list" | PollFails js_error

datatype set_cookie = NoSetCookie | SetCookieArray "string list" | SetCookieString string

datatype probe = ProbeResponse set_cookie | ProbeFails js_error

text \<open>The collaborators of one login attempt. \<open>launch\<close> and \<open>newPage\<close> give the handle
  they resolve with, or \<open>None\<close> when they reject; \<open>gotoOk\<close> and \<open>openOk\<close> say whether
  \<open>page.goto\<close> and the system \<open>open\<close> command succeed. The \<open>i\<close>-th iteration of a polling
  loop finds \<open>polls i\<close> (or \<open>probes i\<close>): the time in milliseconds its awaits take beyond
  the interval timer (the duration of the read and any lateness of the timer), and what the
  read gives. \<open>browser.close()\<close> is taken to succeed, after \<open>closeDelay\<close> milliseconds.
  \<open>graceDelay\<close> is the lateness in milliseconds of the 5000 ms timer that the probe path
  awaits before it reads its start time.\<close>

record login_env =
  launch :: "nat option"
  newPage :: "nat option"
  gotoOk :: bool
  openOk :: bool
  polls :: "nat \<Rightarrow> nat \<times> poll"
  probes :: "nat \<Rightarrow> nat \<times> probe"
  closeDelay :: nat
  graceDelay :: nat

definition openBrowserWithSystem :: "login_env \<Rightarrow> js_error + unit" where
  "openBrowserWithSystem env =
     (if openOk env then Inr ()
      else Inl (Error ''Failed to open browser. Please open https://www.iconfont.cn/ manually and log in.''))"

definition startLogin ::
    "login_service \<Rightarrow> login_env \<Rightarrow> (js_error + unit) \<times> login_service \<times> event list" where
  "startLogin ls env =
     (case launch env of
        None \<Rightarrow> (openBrowserWithSystem env, ls, [])
      | Some b \<Rightarrow>
          (let ls1 = ls\<lparr>browser := Some b\<rparr>
           in (case newPage env of
                 None \<Rightarrow> (openBrowserWithSystem env, ls1, [Launched b])
               | Some p \<Rightarrow>
                   (let ls2 = ls1\<lparr>page := Some p\<rparr>
                    in if gotoOk env then (Inr (), ls2, [Launched b])
                       else (openBrowserWithSystem env, ls2, [Launched b])))))"

definition close :: "login_service \<Rightarrow> login_service \<times> event list" where
  "close ls =
     (case browser ls of
        Some b \<Rightarrow> (ls\<lparr>browser := None, page := None\<rparr>, [BrowserClosed b])
      | None \<Rightarrow> (ls, []))"

text \<open>The time \<open>await this.close()\<close> takes: that of \<open>browser.close()\<close> when a browser is
  held, none otherwise.\<close>

definition closeTime :: "login_service \<Rightarrow> login_env \<Rightarrow> int" where
  "closeTime ls env = (case browser ls of Some b \<Rightarrow> int (closeDelay env) | None \<Rightarrow> 0)"

definition isRunning :: "login_service \<Rightarrow> bool" where
  "isRunning ls = (browser ls \<noteq> None)"

text \<open>How a polling loop ends, and the clock at that moment.\<close>

datatype loop_exit = Found string int | TimedOut int | Failed js_error int

text \<open>\<open>cookies.find(c => c.name === "EGG_SESS_ICONFONT")\<close> and the test
  \<open>sessionCookie && sessionCookie.value\<close>.\<close>

definition sessionCookieOf :: "(string \<times> string) list \<Rightarrow> string option" where
  "sessionCookieOf cs =
     (case find (\<lambda>c. fst c = ''EGG_SESS_ICONFONT'') cs of
        None \<Rightarrow> None
      | Some c \<Rightarrow> if snd c \<noteq> [] then Some (snd c) else None)"

text \<open>The \<open>while\<close> loop of \<open>waitForLogin\<close>; \<open>now\<close> is the clock at the loop test.\<close>

function pollLoop :: "(nat \<Rightarrow> nat \<times> poll) \<Rightarrow> int \<Rightarrow> int \<Rightarrow> int \<Rightarrow> nat \<Rightarrow> loop_exit" where
  "pollLoop ps startTime tmo now i =
     (if now - startTime < tmo
      then (case ps i of
              (d, PollFails e) \<Rightarrow> Failed e (now + int d)
            | (d, Cookies cs) \<Rightarrow>
                (case sessionCookieOf cs of
                   Some v \<Rightarrow> Found v (now + int d)
                 | None \<Rightarrow>
                     pollLoop ps startTime tmo (now + int d + LOGIN_CHECK_INTERVAL) (Suc i)))
      else TimedOut now)"
  by pat_completeness auto
termination
  by (relation "measure (\<lambda>(ps, startTime, tmo, now, i). nat (startTime + tmo - now))")
     (auto simp: LOGIN_CHECK_INTERVAL_def)

text \<open>The body of \<open>if (cookies) { ... }\<close> in the probe loop: \<open>None\<close> when the iteration
  goes on to the next probe.\<close>

definition extractCookie :: "set_cookie \<Rightarrow> string option" where
  "extractCookie h =
     (case (case h of
              NoSetCookie \<Rightarrow> None
            | SetCookieArray xs \<Rightarrow> Some (joinWith '','' xs)
            | SetCookieString s \<Rightarrow> if s \<noteq> [] then Some s else None) of
        None \<Rightarrow> None
      | Some cookieStr \<Rightarrow>
          (case find (\<lambda>c. startsWith (trim c) ''EGG_SESS_ICONFONT='')
                     (js_split CHR '','' cookieStr) of
             None \<Rightarrow> None
           | Some eggSessMatch \<Rightarrow>
               if eggSessMatch = [] then None
               else (case js_split CHR '';'' eggSessMatch of
                       [] \<Rightarrow> None
                     | first # rest \<Rightarrow> Some (replaceFirst ''EGG_SESS_ICONFONT='' [] first))))"

text \<open>The \<open>while\<close> loop of \<open>waitForCookieFromApiWithPrompt\<close>: a failed probe is caught
  and logged, and the loop goes on.\<close>

function probeLoop :: "(nat \<Rightarrow> nat \<times> probe) \<Rightarrow> int \<Rightarrow> int \<Rightarrow> int \<Rightarrow> nat \<Rightarrow> loop_exit" where
  "probeLoop ps startTime tmo now i =
     (if now - startTime < tmo
      then (case ps i of
              (d, r) \<Rightarrow>
                (case (case r of ProbeResponse h \<Rightarrow> extractCookie h | ProbeFails e \<Rightarrow> None) of
                   Some v \<Rightarrow> Found v (now + int d)
                 | None \<Rightarrow>
                     probeLoop ps startTime tmo (now + int d + LOGIN_CHECK_INTERVAL) (Suc i)))
      else TimedOut now)"
  by pat_completeness auto
termination
  by (relation "measure (\<lambda>(ps, startTime, tmo, now, i). nat (startTime + tmo - now))")
     (auto simp: LOGIN_CHECK_INTERVAL_def)

text \<open>What the promise of \<open>waitForLogin\<close> settles with: \<open>Returns None\<close> is \<open>null\<close>.\<close>

datatype login_result = Returns "string option" | Throws js_error

text \<open>\<open>entry\<close> is the clock when the function is entered; the grace wait of 5000 ms, with
  the lateness of its timer, comes before \<open>startTime\<close> is read. The last component is the
  clock when the promise settles.\<close>

definition waitForCookieFromApiWithPrompt ::
    "login_env \<Rightarrow> int \<Rightarrow> int \<Rightarrow> login_result \<times> int" where
  "waitForCookieFromApiWithPrompt env tmo entry =
     (let startTime = entry + 5000 + int (graceDelay env)
      in (case probeLoop (probes env) startTime tmo startTime 0 of
            Found v c \<Rightarrow> (Returns (Some v), c)
          | TimedOut c \<Rightarrow> (Throws loginTimeout, c)
          | Failed e c \<Rightarrow> (Throws e, c)))"

definition waitForLogin ::
    "login_service \<Rightarrow> login_env \<Rightarrow> int \<Rightarrow> int
       \<Rightarrow> login_result \<times> login_service \<times> event list \<times> int" where
  "waitForLogin ls env tmo entry =
     (case page ls of
        None \<Rightarrow>
          (case waitForCookieFromApiWithPrompt env tmo entry of (r, c) \<Rightarrow> (r, ls, [], c))
      | Some p \<Rightarrow>
          (case pollLoop (polls env) entry tmo entry 0 of
             Found v c \<Rightarrow>
               (case close ls of
                  (ls', ev) \<Rightarrow> (Returns (Some v), ls', ev, c + closeTime ls env))
           | TimedOut c \<Rightarrow>
               (case close ls of
                  (ls', ev) \<Rightarrow> (Throws loginTimeout, ls', ev, c + closeTime ls env))
           | Failed e c \<Rightarrow> (Throws e, ls, [], c)))"

section \<open>The login tools\<close>

text \<open>What a tool handler returns: the success text with the login status as structured
  content, the text \<open>Login timeout. Please try again.\<close> of the \<open>else\<close> branch, or the text
  \<open>Error: ...\<close> of the \<open>catch\<close> block.\<close>

datatype tool_result = LoggedIn login_status | TimeoutText | ErrorText string

text \<open>\<open>error instanceof Error ? error.message : "Failed to login"\<close>\<close>

fun loginErrorText :: "js_error \<Rightarrow> string" where
  "loginErrorText ThrownValue = ''Error: Failed to login''"
| "loginErrorText e = ''Error: '' @ errorMessage e"

definition iconfont_login :: "service \<Rightarrow> string \<Rightarrow> tool_result \<times> service" where
  "iconfont_login svc c = (let svc' = setCookie svc c in (LoggedIn (getLoginStatus svc'), svc'))"

text \<open>The handler of \<open>iconfont_auto_login\<close> on a new \<open>IconfontLoginService\<close>. It gives the
  result, the session service and the login service afterwards, and the browser events.\<close>

definition iconfont_auto_login ::
    "service \<Rightarrow> login_env \<Rightarrow> int \<Rightarrow> tool_result \<times> service \<times> login_service \<times> event list" where
  "iconfont_auto_login svc env entry =
     (case startLogin \<lparr>browser = None, page = None\<rparr> env of
        (Inl e, ls1, ev1) \<Rightarrow>
          (case close ls1 of (ls2, ev2) \<Rightarrow> (ErrorText (loginErrorText e), svc, ls2, ev1 @ ev2))
      | (Inr u, ls1, ev1) \<Rightarrow>
          (case waitForLogin ls1 env 120000 entry of
             (Returns c, ls2, ev2, clk) \<Rightarrow>
               (case c of
                  Some v \<Rightarrow>
                    if v \<noteq> []
                    then (let svc' = setCookie svc v
                          in (LoggedIn (getLoginStatus svc'), svc', ls2, ev1 @ ev2))
                    else (TimeoutText, svc, ls2, ev1 @ ev2)
                | None \<Rightarrow> (TimeoutText, svc, ls2, ev1 @ ev2))
           | (Throws e, ls2, ev2, clk) \<Rightarrow>
               (case close ls2 of
                  (ls3, ev3) \<Rightarrow> (ErrorText (loginErrorText e), svc, ls3, ev1 @ ev2 @ ev3))))"

section \<open>The specification's vocabulary and example inputs\<close>

text \<open>The specification's \<open>effectiveToken\<close>: the override if supplied and non-empty, else
  the stored token.\<close>

definition effectiveToken :: "string option \<Rightarrow> string \<Rightarrow> string" where
  "effectiveToken overrideToken stored =
     (case overrideToken of
        Some tok \<Rightarrow> if tok \<noteq> [] then tok else stored
      | None \<Rightarrow> stored)"

text \<open>The \<open>Cookie\<close> header that carries a token: the session-cookie name, an equals sign
  and the token, unless the token already starts so.\<close>

definition cookieHeader :: "string \<Rightarrow> string" where
  "cookieHeader tok =
     (if startsWith tok ''EGG_SESS_ICONFONT='' then tok else ''EGG_SESS_ICONFONT='' @ tok)"

text \<open>The error kinds of the specification. The services throw plain \<open>Error\<close> objects, so a
  kind is recognised by the message the source gives it.\<close>

definition isAuthenticationFailed :: "js_error \<Rightarrow> bool" where
  "isAuthenticationFailed e =
     (case e of Error m \<Rightarrow> startsWith m ''Authentication failed.'' | _ \<Rightarrow> False)"

definition isRequestTimedOut :: "js_error \<Rightarrow> bool" where
  "isRequestTimedOut e =
     (case e of Error m \<Rightarrow> startsWith m ''Request timed out.'' | _ \<Rightarrow> False)"

text \<open>A logged-in service whose cache holds project \<open>42\<close>, captured at time 0.\<close>

definition cachedService :: service where
  "cachedService =
     \<lparr>cookie = ''abc'', loggedIn = True,
      projectDetailCache = [''42'' \<mapsto> \<lparr>data = JStr ''detail'', timestamp = 0, updatedAt = JStr []\<rparr>]\<rparr>"

text \<open>A collaborator that answers every request with the detail of project 42.\<close>

definition detailHttp :: http where
  "detailHttp =
     (\<lambda>r. Resolved (JObj [(''data'',
              JObj [(''project'', JObj [(''id'', JNum 42), (''name'', JStr ''icons'')])])]))"

text \<open>A collaborator that answers every request with HTTP 401, and one whose every request
  runs into the axios timeout.\<close>

definition reject401 :: http where
  "reject401 = (\<lambda>r. Rejected (AxiosError (Some 401) (Some ''ERR_BAD_REQUEST'')
                                  ''Request failed with status code 401''))"

definition rejectTimeout :: http where
  "rejectTimeout = (\<lambda>r. Rejected (AxiosError None (Some ''ECONNABORTED'')
                                      ''timeout of 30000ms exceeded''))"

text \<open>A login service that holds no browser.\<close>

definition noBrowser :: login_service where
  "noBrowser = \<lparr>browser = None, page = None\<rparr>"

text \<open>Login environments. In \<open>leakEnv\<close> the browser launches, \<open>newPage\<close> fails, the system
  browser opens and the first probe brings the session cookie. In \<open>quietEnv\<close> no scriptable
  browser is available and no probe ever brings a cookie. In \<open>emptyCookieEnv\<close> no
  scriptable browser is available and the probe's response sets the session cookie to the
  empty value. In these three every await takes no time beyond its timer. In \<open>slowEnv\<close> no
  token ever arrives, every iteration takes 76 ms beyond the interval timer, closing the
  browser takes 500 ms and the grace timer is 3 ms late.\<close>

definition leakEnv :: login_env where
  "leakEnv =
     \<lparr>launch = Some 1, newPage = None, gotoOk = True, openOk = True,
      polls = (\<lambda>i. (0, Cookies [])),
      probes = (\<lambda>i. (0, ProbeResponse (SetCookieArray [''EGG_SESS_ICONFONT=abc; Path=/'']))),
      closeDelay = 0, graceDelay = 0\<rparr>"

definition quietEnv :: login_env where
  "quietEnv =
     \<lparr>launch = None, newPage = None, gotoOk = False, openOk = True,
      polls = (\<lambda>i. (0, Cookies [])),
      probes = (\<lambda>i. (0, ProbeResponse NoSetCookie)),
      closeDelay = 0, graceDelay = 0\<rparr>"

definition emptyCookieEnv :: login_env where
  "emptyCookieEnv =
     \<lparr>launch = None, newPage = None, gotoOk = False, openOk = True,
      polls = (\<lambda>i. (0, Cookies [])),
      probes = (\<lambda>i. (0, ProbeResponse (SetCookieArray [''EGG_SESS_ICONFONT=; Path=/'']))),
      closeDelay = 0, graceDelay = 0\<rparr>"

definition slowEnv :: login_env where
  "slowEnv =
     \<lparr>launch = Some 1, newPage = Some 2, gotoOk = True, openOk = True,
      polls = (\<lambda>i. (76, Cookies [])),
      probes = (\<lambda>i. (76, ProbeFails ThrownValue)),
      closeDelay = 500, graceDelay = 3\<rparr>"

text \<open>The request \<open>getProjectDetail\<close> hands to the collaborator; \<open>t\<close> is the clock read for
  its parameter.\<close>

definition detailRequest :: "service \<Rightarrow> string \<Rightarrow> string option \<Rightarrow> int \<Rightarrow> request" where
  "detailRequest st projectId overrideCookie t =
     \<lparr>httpMethod = ''GET'', url = ICONFONT_API_BASE @ ''/project/detail.json'',
      params = [(''pid'', JStr projectId), (''t'', JNum t)], body = [],
      headers = getHeaders st overrideCookie, timeout = 30000\<rparr>"

text \<open>A successful answer to the detail request: response data with a truthy \<open>data\<close> and a
  truthy \<open>data.project\<close>, whose \<open>id\<close> is absent or can be rendered as a string.\<close>

definition detailOk :: "json \<Rightarrow> bool" where
  "detailOk d =
     (truthy d \<and> truthy (getProp d ''data'')
      \<and> truthy (getProp (getProp d ''data'') ''project'')
      \<and> (let i = getProp (getProp (getProp d ''data'') ''project'') ''id''
         in nullish i \<or> jsToString i \<noteq> None))"

text \<open>The cache lookup that answers without a remote call: no forced refresh and an entry
  for the project younger than 300000 ms.\<close>

definition freshHit :: "service \<Rightarrow> string \<Rightarrow> bool \<Rightarrow> int \<Rightarrow> bool" where
  "freshHit st projectId forceRefresh now =
     (\<not> forceRefresh
      \<and> (case projectDetailCache st projectId of
            Some c \<Rightarrow> now - timestamp c < 300000
          | None \<Rightarrow> False))"

section \<open>Credential resolution\<close>

lemma getEffectiveCookie_eq: "getEffectiveCookie st ov = effectiveToken ov (cookie st)"
  by (simp add: getEffectiveCookie_def strOr_def effectiveToken_def)

lemma getHeaders_Cookie:
  "getEffectiveCookie st ov \<noteq> [] \<Longrightarrow>
   map_of (getHeaders st ov) ''Cookie'' = Some (cookieHeader (effectiveToken ov (cookie st)))"
  by (simp add: getHeaders_def Let_def cookieHeader_def getEffectiveCookie_eq)

lemma listProjects_requests:
  "r \<in> set (snd (snd (listProjects st ov t http))) \<Longrightarrow>
   getEffectiveCookie st ov \<noteq> [] \<and> headers r = getHeaders st ov"
  by (auto simp: listProjects_def Let_def split: if_splits http_result.splits sum.splits)

lemma listProjects_issues:
  "getEffectiveCookie st ov \<noteq> [] \<Longrightarrow>
   \<exists>req. snd (snd (listProjects st ov t http)) = [req] \<and> headers req = getHeaders st ov"
  by (auto simp: listProjects_def Let_def split: http_result.splits sum.splits)

lemma fetchProjectDetail_request:
  "snd (snd (fetchProjectDetail st pid ov now t http)) = [detailRequest st pid ov t]"
  by (auto simp: fetchProjectDetail_def detailRequest_def Let_def
           split: http_result.splits sum.splits)

lemma freshHit_iff:
  "freshHit st pid force now
     \<longleftrightarrow> \<not> force \<and> (\<exists>c. projectDetailCache st pid = Some c \<and> now - timestamp c < 300000)"
  by (auto simp: freshHit_def split: option.splits)

lemma getProjectDetail_hit:
  "getEffectiveCookie st ov \<noteq> [] \<Longrightarrow> freshHit st pid force now \<Longrightarrow>
   \<exists>c. projectDetailCache st pid = Some c
      \<and> getProjectDetail st pid ov force now t http = (Inr (data c), st, [])"
  by (auto simp: getProjectDetail_def freshHit_def cacheMaxAge_def split: option.splits)

lemma getProjectDetail_miss:
  "getEffectiveCookie st ov \<noteq> [] \<Longrightarrow> \<not> freshHit st pid force now \<Longrightarrow>
   getProjectDetail st pid ov force now t http = fetchProjectDetail st pid ov now t http"
  by (auto simp: getProjectDetail_def freshHit_def cacheMaxAge_def split: option.splits)

lemma getProjectDetail_requests:
  "r \<in> set (snd (snd (getProjectDetail st pid ov force now t http))) \<Longrightarrow>
   getEffectiveCookie st ov \<noteq> [] \<and> headers r = getHeaders st ov"
proof (cases "getEffectiveCookie st ov = []")
  case True
  assume "r \<in> set (snd (snd (getProjectDetail st pid ov force now t http)))"
  with True show ?thesis by (simp add: getProjectDetail_def)
next
  case False
  assume r: "r \<in> set (snd (snd (getProjectDetail st pid ov force now t http)))"
  show ?thesis
  proof (cases "freshHit st pid force now")
    case True
    from getProjectDetail_hit [OF False True, of t http] r show ?thesis by auto
  next
    case hit: False
    from getProjectDetail_miss [OF False hit, of t http] r fetchProjectDetail_request [of st pid ov now t http]
    have "r = detailRequest st pid ov t" by simp
    with False show ?thesis by (simp add: detailRequest_def)
  qed
qed

lemma searchProjectIcons_requests:
  "r \<in> set (snd (snd (searchProjectIcons st pid kw ov pg t http))) \<Longrightarrow>
   getEffectiveCookie st ov \<noteq> [] \<and> (\<exists>ref. headers r = AList.update ''Referer'' ref (getHeaders st ov))"
  by (auto simp: searchProjectIcons_def Let_def split: if_splits http_result.splits sum.splits)

lemma searchProjectIcons_issues:
  "getEffectiveCookie st ov \<noteq> [] \<Longrightarrow>
   \<exists>req ref. snd (snd (searchProjectIcons st pid kw ov pg t http)) = [req]
     \<and> headers req = AList.update ''Referer'' ref (getHeaders st ov)"
  by (auto simp: searchProjectIcons_def Let_def split: http_result.splits sum.splits)

lemma no_cookie_no_call:
  assumes "getEffectiveCookie st ov = []"
  shows "listProjects st ov t http = (Inl authRequired, st, [])"
    and "getProjectDetail st pid ov force now t http = (Inl authRequired, st, [])"
    and "searchProjectIcons st pid kw ov pg t http = (Inl authRequired, st, [])"
  using assms by (simp_all add: listProjects_def getProjectDetail_def searchProjectIcons_def)

text \<open>C2: for every stored token and every override, the effective cookie is the
  override when it is supplied and non-empty and the stored token otherwise. It is the
  cookie each of \<open>listProjects\<close>, \<open>getProjectDetail\<close> and \<open>searchProjectIcons\<close> works with:
  when it is empty the operation fails with the authentication-required error and issues no
  request; when it is not, the operation issues one request (\<open>getProjectDetail\<close> none on a
  fresh cache hit) and every request it issues carries exactly that cookie in its
  \<open>Cookie\<close> header.\<close>

theorem effective_cookie_precedence:
  "getEffectiveCookie st ov = effectiveToken ov (cookie st)
   \<and> (effectiveToken ov (cookie st) = [] \<longrightarrow>
        listProjects st ov t http = (Inl authRequired, st, [])
        \<and> getProjectDetail st pid ov force now t http = (Inl authRequired, st, [])
        \<and> searchProjectIcons st pid kw ov pg t http = (Inl authRequired, st, []))
   \<and> (effectiveToken ov (cookie st) \<noteq> [] \<longrightarrow>
        (\<exists>req. snd (snd (listProjects st ov t http)) = [req]
           \<and> map_of (headers req) ''Cookie''
               = Some (cookieHeader (effectiveToken ov (cookie st))))
        \<and> (if freshHit st pid force now
           then snd (snd (getProjectDetail st pid ov force now t http)) = []
           else \<exists>req. snd (snd (getProjectDetail st pid ov force now t http)) = [req]
                  \<and> map_of (headers req) ''Cookie''
                      = Some (cookieHeader (effectiveToken ov (cookie st))))
        \<and> (\<exists>req. snd (snd (searchProjectIcons st pid kw ov pg t http)) = [req]
              \<and> map_of (headers req) ''Cookie''
                  = Some (cookieHeader (effectiveToken ov (cookie st)))))
   \<and> (\<forall>r \<in> set (snd (snd (listProjects st ov t http))).
        map_of (headers r) ''Cookie'' = Some (cookieHeader (effectiveToken ov (cookie st))))
   \<and> (\<forall>r \<in> set (snd (snd (getProjectDetail st pid ov force now t http))).
        map_of (headers r) ''Cookie'' = Some (cookieHeader (effectiveToken ov (cookie st))))
   \<and> (\<forall>r \<in> set (snd (snd (searchProjectIcons st pid kw ov pg t http))).
        map_of (headers r) ''Cookie'' = Some (cookieHeader (effectiveToken ov (cookie st))))"
proof (intro conjI impI ballI)
  show "getEffectiveCookie st ov = effectiveToken ov (cookie st)"
    by (rule getEffectiveCookie_eq)
next
  assume "effectiveToken ov (cookie st) = []"
  then have e: "getEffectiveCookie st ov = []" by (simp add: getEffectiveCookie_eq)
  show "listProjects st ov t http = (Inl authRequired, st, [])"
    by (rule no_cookie_no_call(1) [OF e])
  show "getProjectDetail st pid ov force now t http = (Inl authRequired, st, [])"
    by (rule no_cookie_no_call(2) [OF e])
  show "searchProjectIcons st pid kw ov pg t http = (Inl authRequired, st, [])"
    by (rule no_cookie_no_call(3) [OF e])
next
  assume "effectiveToken ov (cookie st) \<noteq> []"
  then have e: "getEffectiveCookie st ov \<noteq> []" by (simp add: getEffectiveCookie_eq)
  from listProjects_issues [OF e, of t http] getHeaders_Cookie [OF e]
  show "\<exists>req. snd (snd (listProjects st ov t http)) = [req]
           \<and> map_of (headers req) ''Cookie''
               = Some (cookieHeader (effectiveToken ov (cookie st)))"
    by auto
  show "if freshHit st pid force now
           then snd (snd (getProjectDetail st pid ov force now t http)) = []
           else \<exists>req. snd (snd (getProjectDetail st pid ov force now t http)) = [req]
                  \<and> map_of (headers req) ''Cookie''
                      = Some (cookieHeader (effectiveToken ov (cookie st)))"
  proof (cases "freshHit st pid force now")
    case True
    with getProjectDetail_hit [OF e True, of t http] show ?thesis by auto
  next
    case False
    have "headers (detailRequest st pid ov t) = getHeaders st ov"
      by (simp add: detailRequest_def)
    with False getProjectDetail_miss [OF e False, of t http]
      fetchProjectDetail_request [of st pid ov now t http] getHeaders_Cookie [OF e]
    show ?thesis by simp
  qed
  from searchProjectIcons_issues [OF e, of pid kw pg t http]
  obtain req ref where "snd (snd (searchProjectIcons st pid kw ov pg t http)) = [req]"
      and "headers req = AList.update ''Referer'' ref (getHeaders st ov)"
    by blast
  then show "\<exists>req. snd (snd (searchProjectIcons st pid kw ov pg t http)) = [req]
              \<and> map_of (headers req) ''Cookie''
                  = Some (cookieHeader (effectiveToken ov (cookie st)))"
    by (simp add: update_conv' getHeaders_Cookie [OF e])
next
  fix r assume "r \<in> set (snd (snd (listProjects st ov t http)))"
  then show "map_of (headers r) ''Cookie'' = Some (cookieHeader (effectiveToken ov (cookie st)))"
    using listProjects_requests getHeaders_Cookie by metis
next
  fix r assume "r \<in> set (snd (snd (getProjectDetail st pid ov force now t http)))"
  then show "map_of (headers r) ''Cookie'' = Some (cookieHeader (effectiveToken ov (cookie st)))"
    using getProjectDetail_requests getHeaders_Cookie by metis
next
  fix r assume "r \<in> set (snd (snd (searchProjectIcons st pid kw ov pg t http)))"
  then obtain ref where "getEffectiveCookie st ov \<noteq> []"
      and "headers r = AList.update ''Referer'' ref (getHeaders st ov)"
    using searchProjectIcons_requests by blast
  then show "map_of (headers r) ''Cookie'' = Some (cookieHeader (effectiveToken ov (cookie st)))"
    by (simp add: update_conv' getHeaders_Cookie)
qed

text \<open>The override \<open>tok\<close> wins over the stored token \<open>stored\<close>, and is accepted when no
  token is stored, in each of the three operations; the empty override falls back to the
  stored token; with neither, no request is issued.\<close>

theorem effective_cookie_precedence_witness:
  "map_of (headers (hd (snd (snd (listProjects (constructor (Some ''stored'') None) (Some ''tok'') 0
                                    (\<lambda>r. Resolved JNull))))))
     ''Cookie'' = Some ''EGG_SESS_ICONFONT=tok''
   \<and> map_of (headers (hd (snd (snd (getProjectDetail (constructor (Some ''stored'') None) ''42''
                                      (Some ''tok'') False 0 0 (\<lambda>r. Resolved JNull))))))
       ''Cookie'' = Some ''EGG_SESS_ICONFONT=tok''
   \<and> map_of (headers (hd (snd (snd (searchProjectIcons (constructor (Some ''stored'') None) ''42''
                                      ''home'' (Some ''tok'') 1 0 (\<lambda>r. Resolved JNull))))))
       ''Cookie'' = Some ''EGG_SESS_ICONFONT=tok''
   \<and> map_of (headers (hd (snd (snd (listProjects (constructor None None) (Some ''tok'') 0
                                    (\<lambda>r. Resolved JNull))))))
     ''Cookie'' = Some ''EGG_SESS_ICONFONT=tok''
   \<and> map_of (headers (hd (snd (snd (getProjectDetail (constructor None None) ''42''
                                      (Some ''tok'') False 0 0 (\<lambda>r. Resolved JNull))))))
       ''Cookie'' = Some ''EGG_SESS_ICONFONT=tok''
   \<and> map_of (headers (hd (snd (snd (searchProjectIcons (constructor None None) ''42''
                                      ''home'' (Some ''tok'') 1 0 (\<lambda>r. Resolved JNull))))))
       ''Cookie'' = Some ''EGG_SESS_ICONFONT=tok''
   \<and> map_of (headers (hd (snd (snd (searchProjectIcons (constructor (Some ''stored'') None)
                                      ''42'' ''home'' (Some []) 1 0 (\<lambda>r. Resolved JNull))))))
        ''Cookie'' = Some ''EGG_SESS_ICONFONT=stored''
   \<and> searchProjectIcons (constructor None None) ''42'' ''home'' None 1 0 (\<lambda>r. Resolved JNull)
        = (Inl authRequired, constructor None None, [])"
  using effective_cookie_precedence [where st = "constructor (Some ''stored'') None"
      and ov = "Some ''tok''" and t = 0 and http = "\<lambda>r. Resolved JNull" and pid = "''42''"
      and force = False and now = 0 and kw = "''home''" and pg = 1]
    effective_cookie_precedence [where st = "constructor None None"
      and ov = "Some ''tok''" and t = 0 and http = "\<lambda>r. Resolved JNull" and pid = "''42''"
      and force = False and now = 0 and kw = "''home''" and pg = 1]
    effective_cookie_precedence [where st = "constructor (Some ''stored'') None"
      and ov = "Some []" and t = 0 and http = "\<lambda>r. Resolved JNull" and pid = "''42''"
      and force = False and now = 0 and kw = "''home''" and pg = 1]
    effective_cookie_precedence [where st = "constructor None None"
      and ov = None and t = 0 and http = "\<lambda>r. Resolved JNull" and pid = "''42''"
      and force = False and now = 0 and kw = "''home''" and pg = 1]
  by (auto simp: constructor_def strOr_def effectiveToken_def cookieHeader_def startsWith_def
      freshHit_def Let_def)

section \<open>Authentication required\<close>

text \<open>C6: with an empty stored token and no non-empty override, \<open>listProjects\<close> fails
  with the authentication-required error, issues no request and leaves the service (session
  and cache) as it was.\<close>

theorem listProjects_requires_cookie:
  assumes "cookie st = []" and "ov = None \<or> ov = Some []"
  shows "listProjects st ov t http = (Inl authRequired, st, [])"
  using assms by (auto simp: listProjects_def getEffectiveCookie_def strOr_def)

theorem listProjects_requires_cookie_witness:
  "cookie (constructor None None) = []
   \<and> listProjects (constructor None None) (Some []) 0 (\<lambda>r. Resolved JNull)
       = (Inl (Error ''Authentication required. Please provide Iconfont cookie.''),
          constructor None None, [])"
  using listProjects_requires_cookie [of "constructor None None" "Some []" 0 "\<lambda>r. Resolved JNull"]
  by (simp add: constructor_def strOr_def authRequired_def)

section \<open>The detail cache\<close>

lemma detailResult_ok:
  assumes "detailOk d"
  shows "\<exists>r. detailResult (getProp d ''data'') = Inr r"
proof (cases "nullish (getProp (getProp (getProp d ''data'') ''project'') ''id'')")
  case True
  then show ?thesis by (simp add: detailResult_def optToString_def Let_def)
next
  case False
  with assms obtain s where
    "jsToString (getProp (getProp (getProp d ''data'') ''project'') ''id'') = Some s"
    by (auto simp: detailOk_def Let_def)
  with False show ?thesis by (simp add: detailResult_def optToString_def Let_def)
qed

lemma fetchProjectDetail_outcome:
  "\<exists>res st'.
      fetchProjectDetail st pid ov now t http = (res, st', [detailRequest st pid ov t])
      \<and> (\<forall>d. http (detailRequest st pid ov t) = Resolved d \<and> detailOk d
            \<longrightarrow> (\<exists>r. detailResult (getProp d ''data'') = Inr r \<and> res = Inr r))
      \<and> (\<forall>r. res = Inr r \<longrightarrow>
            (\<exists>d. http (detailRequest st pid ov t) = Resolved d
                 \<and> detailResult (getProp d ''data'') = Inr r)
            \<and> st' = st\<lparr>projectDetailCache := (projectDetailCache st)(pid \<mapsto>
                        \<lparr>data = r, timestamp = now, updatedAt = getProp r ''updated_at''\<rparr>)\<rparr>)"
proof (cases "http (detailRequest st pid ov t)")
  case (Rejected e)
  then show ?thesis
    by (simp add: fetchProjectDetail_def detailRequest_def Let_def)
next
  case (Resolved d)
  show ?thesis
  proof (cases "detailOk d")
    case True
    then obtain r where r: "detailResult (getProp d ''data'') = Inr r"
      using detailResult_ok by blast
    from True have "truthy d" "truthy (getProp d ''data'')"
        "truthy (getProp (getProp d ''data'') ''project'')"
      by (simp_all add: detailOk_def)
    with Resolved r show ?thesis
      by (simp add: fetchProjectDetail_def detailRequest_def Let_def)
  next
    case False
    with Resolved show ?thesis
      by (cases "detailResult (getProp d ''data'')")
         (simp_all add: fetchProjectDetail_def detailRequest_def Let_def)
  qed
qed

text \<open>C1: with a non-empty effective cookie, \<open>getProjectDetail\<close> returns the cached value
  and issues no request when no refresh is forced and the entry for the project is younger
  than 300000 ms. In every other case it issues the detail request and nothing else; when
  that request is answered successfully the call fulfils with the result built from the
  response; and whenever the call fulfils, the result comes from the response and the entry
  for the project is replaced by that result with capture time \<open>now\<close>.\<close>

theorem getProjectDetail_cache_policy:
  assumes "getEffectiveCookie st ov \<noteq> []"
  shows "if \<not> force \<and> (\<exists>c. projectDetailCache st pid = Some c \<and> now - timestamp c < 300000)
         then \<exists>c. projectDetailCache st pid = Some c
                \<and> getProjectDetail st pid ov force now t http = (Inr (data c), st, [])
         else \<exists>res st'.
                getProjectDetail st pid ov force now t http
                  = (res, st', [detailRequest st pid ov t])
                \<and> (\<forall>d. http (detailRequest st pid ov t) = Resolved d \<and> detailOk d
                      \<longrightarrow> (\<exists>r. detailResult (getProp d ''data'') = Inr r \<and> res = Inr r))
                \<and> (\<forall>r. res = Inr r \<longrightarrow>
                      (\<exists>d. http (detailRequest st pid ov t) = Resolved d
                           \<and> detailResult (getProp d ''data'') = Inr r)
                      \<and> st' = st\<lparr>projectDetailCache := (projectDetailCache st)(pid \<mapsto>
                                  \<lparr>data = r, timestamp = now,
                                   updatedAt = getProp r ''updated_at''\<rparr>)\<rparr>)"
proof (cases "freshHit st pid force now")
  case True
  with getProjectDetail_hit [OF assms True, of t http] show ?thesis
    by (simp add: freshHit_iff)
next
  case False
  from getProjectDetail_miss [OF assms False, of t http]
    fetchProjectDetail_outcome [of st pid ov now t http]
  have "\<exists>res st'.
          getProjectDetail st pid ov force now t http
            = (res, st', [detailRequest st pid ov t])
          \<and> (\<forall>d. http (detailRequest st pid ov t) = Resolved d \<and> detailOk d
                \<longrightarrow> (\<exists>r. detailResult (getProp d ''data'') = Inr r \<and> res = Inr r))
          \<and> (\<forall>r. res = Inr r \<longrightarrow>
                (\<exists>d. http (detailRequest st pid ov t) = Resolved d
                     \<and> detailResult (getProp d ''data'') = Inr r)
                \<and> st' = st\<lparr>projectDetailCache := (projectDetailCache st)(pid \<mapsto>
                            \<lparr>data = r, timestamp = now,
                             updatedAt = getProp r ''updated_at''\<rparr>)\<rparr>)"
    by simp
  moreover from False
  have "\<not> (\<not> force \<and> (\<exists>c. projectDetailCache st pid = Some c \<and> now - timestamp c < 300000))"
    by (simp add: freshHit_iff)
  ultimately show ?thesis by (simp only: if_False)
qed

lemma showInt_42: "showInt 42 = ''42''"
  by code_simp

text \<open>From an empty cache the answered request fulfils and is cached with capture time 0;
  a lookup 120000 ms after the capture is served from the cache; a lookup 400000 ms after
  it issues the request again and replaces the entry.\<close>

theorem getProjectDetail_cache_policy_witness:
  "getEffectiveCookie (constructor (Some ''abc'') None) None \<noteq> []
   \<and> detailOk (JObj [(''data'',
                 JObj [(''project'', JObj [(''id'', JNum 42), (''name'', JStr ''icons'')])])])
   \<and> getProjectDetail (constructor (Some ''abc'') None) ''42'' None False 0 1 detailHttp
       = (Inr (JObj [(''id'', JStr ''42''), (''name'', JStr ''icons''), (''icon_count'', JNum 0),
                     (''font_family'', JStr []), (''created_at'', JStr []),
                     (''updated_at'', JStr []), (''username'', JStr [])]),
          \<lparr>cookie = ''abc'', loggedIn = True,
           projectDetailCache =
             [''42'' \<mapsto>
              \<lparr>data = JObj [(''id'', JStr ''42''), (''name'', JStr ''icons''),
                            (''icon_count'', JNum 0), (''font_family'', JStr []),
                            (''created_at'', JStr []), (''updated_at'', JStr []),
                            (''username'', JStr [])],
               timestamp = 0, updatedAt = JStr []\<rparr>]\<rparr>,
          [detailRequest (constructor (Some ''abc'') None) ''42'' None 1])
   \<and> getProjectDetail cachedService ''42'' None False 120000 120001 detailHttp
       = (Inr (JStr ''detail''), cachedService, [])
   \<and> fst (getProjectDetail cachedService ''42'' None False 400000 400001 detailHttp)
       = Inr (JObj [(''id'', JStr ''42''), (''name'', JStr ''icons''), (''icon_count'', JNum 0),
                    (''font_family'', JStr []), (''created_at'', JStr []),
                    (''updated_at'', JStr []), (''username'', JStr [])])
   \<and> map_option timestamp
         (projectDetailCache
            (fst (snd (getProjectDetail cachedService ''42'' None False 400000 400001 detailHttp)))
            ''42'')
       = Some 400000"
  using getProjectDetail_cache_policy [of "constructor (Some ''abc'') None" None False
      "''42''" 0 1 detailHttp]
    getProjectDetail_cache_policy [of cachedService None False "''42''" 120000 120001
      detailHttp]
    getProjectDetail_cache_policy [of cachedService None False "''42''" 400000 400001
      detailHttp]
  by (simp add: cachedService_def constructor_def getEffectiveCookie_def strOr_def
      detailHttp_def detailOk_def getProjectDetail_def fetchProjectDetail_def cacheMaxAge_def
      detailRequest_def detailResult_def optToString_def jsOr_def showInt_42 Let_def)

lemma fetchProjectDetail_unfold:
  "\<exists>req. fetchProjectDetail st pid ov now t http =
     (case http req of
        Rejected e \<Rightarrow> (Inl (getProjectDetail_catch e), st, [req])
      | Resolved d \<Rightarrow>
          if \<not> truthy d \<or> \<not> truthy (getProp d ''data'')
             \<or> \<not> truthy (getProp (getProp d ''data'') ''project'')
          then (Inl (getProjectDetail_catch
                       (Error ''Failed to get project detail: invalid response'')),
                st, [req])
          else (case detailResult (getProp d ''data'') of
                  Inl e \<Rightarrow> (Inl (getProjectDetail_catch e), st, [req])
                | Inr result \<Rightarrow>
                    (Inr result,
                     st\<lparr>projectDetailCache := (projectDetailCache st)(pid \<mapsto>
                           \<lparr>data = result, timestamp = now,
                            updatedAt = getProp result ''updated_at''\<rparr>)\<rparr>,
                     [req])))"
  unfolding fetchProjectDetail_def Let_def by (rule exI) (rule refl)

lemma invalid_response_message:
  "getProjectDetail_catch (Error ''Failed to get project detail: invalid response'')
     = Error ''Failed to get project detail: Failed to get project detail: invalid response''"
  by (simp add: getProjectDetail_catch_def)

lemma fetchProjectDetail_failure:
  assumes "fetchProjectDetail st pid ov now t http = (res, st', reqs)"
  shows "(\<forall>e. res = Inl e \<longrightarrow> st' = st)
       \<and> (\<forall>req \<in> set reqs.
            (\<forall>e. http req = Rejected e \<longrightarrow> res = Inl (getProjectDetail_catch e))
          \<and> (\<forall>d. http req = Resolved d
                  \<and> (\<not> truthy d \<or> \<not> truthy (getProp d ''data'')
                     \<or> \<not> truthy (getProp (getProp d ''data'') ''project''))
                \<longrightarrow> res = Inl (Error ''Failed to get project detail: Failed to get project detail: invalid response'')))"
proof -
  obtain req where eq: "fetchProjectDetail st pid ov now t http =
     (case http req of
        Rejected e \<Rightarrow> (Inl (getProjectDetail_catch e), st, [req])
      | Resolved d \<Rightarrow>
          if \<not> truthy d \<or> \<not> truthy (getProp d ''data'')
             \<or> \<not> truthy (getProp (getProp d ''data'') ''project'')
          then (Inl (getProjectDetail_catch
                       (Error ''Failed to get project detail: invalid response'')),
                st, [req])
          else (case detailResult (getProp d ''data'') of
                  Inl e \<Rightarrow> (Inl (getProjectDetail_catch e), st, [req])
                | Inr result \<Rightarrow>
                    (Inr result,
                     st\<lparr>projectDetailCache := (projectDetailCache st)(pid \<mapsto>
                           \<lparr>data = result, timestamp = now,
                            updatedAt = getProp result ''updated_at''\<rparr>)\<rparr>,
                     [req])))"
    using fetchProjectDetail_unfold by blast
  show ?thesis
  proof (cases "http req")
    case (Rejected e)
    with eq assms show ?thesis by simp
  next
    case (Resolved d)
    show ?thesis
    proof (cases "\<not> truthy d \<or> \<not> truthy (getProp d ''data'')
                  \<or> \<not> truthy (getProp (getProp d ''data'') ''project'')")
      case True
      with eq assms Resolved show ?thesis
        by (simp only: http_result.case if_True invalid_response_message) auto
    next
      case False
      with eq assms Resolved show ?thesis
        by (cases "detailResult (getProp d ''data'')") auto
    qed
  qed
qed

text \<open>C4: when \<open>getProjectDetail\<close> fails, the caller gets the error and the service, hence
  the detail cache, is exactly as before the call; and a refresh whose request is rejected
  (remote error, 401/403, timeout) or whose response has an invalid shape does fail, with
  the error the \<open>catch\<close> block makes of it.\<close>

theorem getProjectDetail_failure_keeps_cache:
  assumes "getProjectDetail st pid ov force now t http = (res, st', reqs)"
  shows "(\<forall>e. res = Inl e \<longrightarrow> st' = st \<and> projectDetailCache st' = projectDetailCache st)
       \<and> (\<forall>req \<in> set reqs.
            (\<forall>e. http req = Rejected e \<longrightarrow> res = Inl (getProjectDetail_catch e))
          \<and> (\<forall>d. http req = Resolved d
                  \<and> (\<not> truthy d \<or> \<not> truthy (getProp d ''data'')
                     \<or> \<not> truthy (getProp (getProp d ''data'') ''project''))
                \<longrightarrow> res = Inl (Error ''Failed to get project detail: Failed to get project detail: invalid response'')))"
proof (cases "getProjectDetail st pid ov force now t http = fetchProjectDetail st pid ov now t http")
  case True
  with assms have "fetchProjectDetail st pid ov now t http = (res, st', reqs)" by simp
  from fetchProjectDetail_failure [OF this] show ?thesis by blast
next
  case False
  then have "res = Inl authRequired \<and> st' = st \<and> reqs = [] \<or> (\<exists>v. res = Inr v) \<and> st' = st \<and> reqs = []"
    using assms by (auto simp: getProjectDetail_def split: if_splits option.splits)
  then show ?thesis by auto
qed

theorem getProjectDetail_failure_keeps_cache_witness:
  "fst (getProjectDetail cachedService ''42'' None True 400000 400001 reject401)
     = Inl (Error ''Authentication failed. Please check your Iconfont cookie.'')
   \<and> fst (snd (getProjectDetail cachedService ''42'' None True 400000 400001 reject401))
     = cachedService
   \<and> length (snd (snd (getProjectDetail cachedService ''42'' None True 400000 400001 reject401))) = 1"
  using getProjectDetail_failure_keeps_cache [of cachedService "''42''" None True 400000 400001
      reject401
      "fst (getProjectDetail cachedService ''42'' None True 400000 400001 reject401)"
      "fst (snd (getProjectDetail cachedService ''42'' None True 400000 400001 reject401))"
      "snd (snd (getProjectDetail cachedService ''42'' None True 400000 400001 reject401))"]
  by (simp add: getProjectDetail_def fetchProjectDetail_def cachedService_def reject401_def
      getEffectiveCookie_def strOr_def getProjectDetail_catch_def Let_def)

section \<open>The session store\<close>

lemma constructor_invariant:
  "loggedIn (constructor cookieArg envCookie) = (cookie (constructor cookieArg envCookie) \<noteq> [])"
  by (simp add: constructor_def Let_def)

lemma setCookie_nonempty_invariant:
  "c \<noteq> [] \<Longrightarrow> loggedIn (setCookie st c) = (cookie (setCookie st c) \<noteq> [])"
  by (simp add: setCookie_def)

text \<open>C3: the claim that the logged-in flag is true exactly when the stored token is
  non-empty after every reachable sequence of operations. The constructor and a
  \<open>setCookie\<close> with a non-empty string keep it (the two lemmas above), but the
  \<open>iconfont_login\<close> tool called with the empty string on a new service leaves the flag set
  with an empty token, and the status reports \<open>loggedIn = true\<close> with \<open>hasCookie = false\<close>.\<close>

theorem empty_cookie_login_status:
  "iconfont_login (constructor None None) []
     = (LoggedIn \<lparr>status_loggedIn = True, hasCookie = False\<rparr>,
        \<lparr>cookie = [], loggedIn = True, projectDetailCache = Map.empty\<rparr>)"
  by (simp add: iconfont_login_def constructor_def strOr_def setCookie_def getLoginStatus_def)

section \<open>Error kinds\<close>

text \<open>C5: the claim that every remote operation turns HTTP 401/403 into the
  authentication-failed kind and a connection timeout into the request-timed-out kind.
  \<open>searchIcons\<close> does both, but \<open>getIconDetail\<close> wraps a 401 and a timeout alike into its
  generic failure message.\<close>

theorem getIconDetail_error_kinds:
  "fst (getIconDetail (constructor None None) ''123'' reject401)
     = Inl (Error ''Failed to get icon details: Request failed with status code 401'')
   \<and> \<not> isAuthenticationFailed
         (Error ''Failed to get icon details: Request failed with status code 401'')
   \<and> fst (getIconDetail (constructor None None) ''123'' rejectTimeout)
     = Inl (Error ''Failed to get icon details: timeout of 30000ms exceeded'')
   \<and> \<not> isRequestTimedOut (Error ''Failed to get icon details: timeout of 30000ms exceeded'')
   \<and> fst (searchIcons (constructor None None) ''home'' [] 1 54 0 reject401)
     = Inl (Error ''Authentication failed. Please provide a valid Iconfont cookie.'')
   \<and> fst (searchIcons (constructor None None) ''home'' [] 1 54 0 rejectTimeout)
     = Inl (Error ''Request timed out. Please try again.'')"
  by (simp add: getIconDetail_def getIconDetail_catch_def searchIcons_def searchIcons_catch_def
      reject401_def rejectTimeout_def isAuthenticationFailed_def isRequestTimedOut_def
      startsWith_def Let_def)

theorem getIconDetail_error_kinds_witness:
  "(case fst (getIconDetail (constructor None None) ''123'' reject401) of
      Inl e \<Rightarrow> \<not> isAuthenticationFailed e
    | Inr v \<Rightarrow> False)
   \<and> (case fst (getIconDetail (constructor None None) ''123'' rejectTimeout) of
      Inl e \<Rightarrow> \<not> isRequestTimedOut e
    | Inr v \<Rightarrow> False)"
  using getIconDetail_error_kinds by simp

section \<open>The login service\<close>

text \<open>C9: the claim that the token extracted from a \<open>set-cookie\<close> header is the session
  cookie's value, also for folded headers and entries with leading white space. For the
  two headers folded with a comma and a space, the entry is found (the search trims it) but
  the extracted token keeps the leading space.\<close>

theorem extractCookie_keeps_leading_space:
  "extractCookie (SetCookieString ''foo=1; Path=/, EGG_SESS_ICONFONT=abc; Path=/'')
     = Some '' abc''"
  by (simp add: extractCookie_def startsWith_def trim_def isSpace_def)

lemma close_idempotent:
  "close (fst (close ls)) = (fst (close ls), []) \<and> \<not> isRunning (fst (close ls))"
  by (simp add: close_def isRunning_def split: option.splits)

lemma waitForLogin_with_page:
  assumes "browser ls = Some b" and "page ls = Some p"
  shows "(\<exists>v c. waitForLogin ls env T entry
                  = (Returns (Some v), \<lparr>browser = None, page = None\<rparr>, [BrowserClosed b], c))
       \<or> (\<exists>c. waitForLogin ls env T entry
                  = (Throws loginTimeout, \<lparr>browser = None, page = None\<rparr>, [BrowserClosed b], c))
       \<or> (\<exists>e c. waitForLogin ls env T entry = (Throws e, ls, [], c))"
  using assms
  by (cases "pollLoop (polls env) entry T entry 0")
     (simp_all add: waitForLogin_def close_def)

lemma auto_login_closes_once_with_page:
  assumes "launch env = Some b" and "newPage env = Some p"
  shows "case iconfont_auto_login svc env entry of
           (r, svc', ls, ev) \<Rightarrow> count_list ev (BrowserClosed b) = 1 \<and> \<not> isRunning ls"
proof -
  let ?ls = "\<lparr>browser = Some b, page = Some p\<rparr>"
  have start: "startLogin \<lparr>browser = None, page = None\<rparr> env
                 = (if gotoOk env then Inr () else openBrowserWithSystem env, ?ls, [Launched b])"
    using assms by (simp add: startLogin_def Let_def)
  show ?thesis
  proof (cases "if gotoOk env then Inr () else openBrowserWithSystem env")
    case (Inl e)
    with start show ?thesis
      by (simp add: iconfont_auto_login_def close_def isRunning_def)
  next
    case (Inr u)
    from waitForLogin_with_page [of ?ls b p env 120000 entry]
    consider (found) v c where "waitForLogin ?ls env 120000 entry
                  = (Returns (Some v), \<lparr>browser = None, page = None\<rparr>, [BrowserClosed b], c)"
      | (timeout) c where "waitForLogin ?ls env 120000 entry
                  = (Throws loginTimeout, \<lparr>browser = None, page = None\<rparr>, [BrowserClosed b], c)"
      | (failed) e c where "waitForLogin ?ls env 120000 entry = (Throws e, ?ls, [], c)"
      by auto
    then show ?thesis
    proof cases
      case found
      with start Inr show ?thesis
        by (simp add: iconfont_auto_login_def isRunning_def Let_def)
    next
      case timeout
      with start Inr show ?thesis
        by (simp add: iconfont_auto_login_def close_def isRunning_def)
    next
      case failed
      with start Inr show ?thesis
        by (simp add: iconfont_auto_login_def close_def isRunning_def)
    qed
  qed
qed

text \<open>C7: the claim that on every terminal outcome an acquired browser is closed exactly
  once and \<open>isRunning\<close> is false afterwards. When the page was acquired too this holds
  (the lemma above); when the browser launches, \<open>newPage\<close> fails and the probe path then
  finds the cookie, the handler reports success, no close happens and the service still
  holds the browser.\<close>

theorem fallback_success_leaves_browser_open:
  "(case iconfont_auto_login (constructor None None) leakEnv 0 of
      (r, svc, ls, ev) \<Rightarrow>
        r = LoggedIn \<lparr>status_loggedIn = True, hasCookie = True\<rparr>
        \<and> ev = [Launched 1] \<and> ls = \<lparr>browser = Some 1, page = None\<rparr> \<and> isRunning ls)"
  by (simp add: iconfont_auto_login_def startLogin_def openBrowserWithSystem_def leakEnv_def
      waitForLogin_def waitForCookieFromApiWithPrompt_def probeLoop.simps extractCookie_def
      startsWith_def trim_def isSpace_def setCookie_def getLoginStatus_def isRunning_def
      constructor_def strOr_def Let_def)

section \<open>The polling loops\<close>

lemma sessionCookieOf_nonempty: "sessionCookieOf cs = Some v \<Longrightarrow> v \<noteq> []"
  by (auto simp: sessionCookieOf_def split: option.splits if_splits)

lemma pollLoop_Found_nonempty: "pollLoop ps s T now i = Found v c \<Longrightarrow> v \<noteq> []"
proof (induction ps s T now i rule: pollLoop.induct)
  case (1 ps s T now i)
  show ?case
  proof (cases "now - s < T")
    case False
    with "1.prems" show ?thesis by (simp add: pollLoop.simps [of ps s T now i])
  next
    case True
    obtain d r where psi: "ps i = (d, r)" by (cases "ps i")
    show ?thesis
    proof (cases r)
      case (PollFails e)
      with True psi "1.prems" show ?thesis by (simp add: pollLoop.simps [of ps s T now i])
    next
      case (Cookies cs)
      show ?thesis
      proof (cases "sessionCookieOf cs")
        case None
        with True psi Cookies "1.prems"
        have "pollLoop ps s T (now + int d + LOGIN_CHECK_INTERVAL) (Suc i) = Found v c"
          by (simp add: pollLoop.simps [of ps s T now i])
        with "1.IH" [OF True psi [symmetric] Cookies None] show ?thesis by simp
      next
        case (Some w)
        with True psi Cookies "1.prems" have "w = v"
          by (simp add: pollLoop.simps [of ps s T now i])
        with Some show ?thesis by (simp add: sessionCookieOf_nonempty)
      qed
    qed
  qed
qed

lemma probeLoop_not_Failed: "probeLoop ps s T now i \<noteq> Failed e c"
proof (induction ps s T now i rule: probeLoop.induct)
  case (1 ps s T now i)
  show ?case
  proof (cases "now - s < T")
    case False
    then show ?thesis by (simp add: probeLoop.simps [of ps s T now i])
  next
    case True
    obtain d r where psi: "ps i = (d, r)" by (cases "ps i")
    show ?thesis
    proof (cases "case r of ProbeResponse h \<Rightarrow> extractCookie h | ProbeFails e \<Rightarrow> None")
      case None
      with "1.IH" [OF True psi [symmetric] None] True psi show ?thesis
        by (simp add: probeLoop.simps [of ps s T now i])
    next
      case (Some w)
      with True psi show ?thesis by (simp add: probeLoop.simps [of ps s T now i])
    qed
  qed
qed

lemma pollLoop_quiet:
  assumes "\<forall>i. \<exists>cs. snd (ps i) = Cookies cs \<and> sessionCookieOf cs = None"
    and "\<forall>i. fst (ps i) \<le> D"
    and "now - s < T + LOGIN_CHECK_INTERVAL + int D"
  shows "\<exists>c. pollLoop ps s T now i = TimedOut c \<and> now \<le> c \<and> T \<le> c - s
             \<and> c - s < T + LOGIN_CHECK_INTERVAL + int D"
  using assms
proof (induction ps s T now i rule: pollLoop.induct)
  case (1 ps s T now i)
  show ?case
  proof (cases "now - s < T")
    case False
    with "1.prems"(3) show ?thesis by (simp add: pollLoop.simps [of ps s T now i])
  next
    case True
    obtain d r where psi: "ps i = (d, r)" by (cases "ps i")
    from "1.prems"(1) psi obtain cs where r: "r = Cookies cs" and none: "sessionCookieOf cs = None"
      by (metis snd_conv)
    from "1.prems"(2) psi have d: "d \<le> D" by (metis fst_conv)
    have step: "pollLoop ps s T now i
                  = pollLoop ps s T (now + int d + LOGIN_CHECK_INTERVAL) (Suc i)"
      using True psi r none by (simp add: pollLoop.simps [of ps s T now i])
    have inv: "now + int d + LOGIN_CHECK_INTERVAL - s < T + LOGIN_CHECK_INTERVAL + int D"
      using True d by simp
    from "1.IH" [OF True psi [symmetric] r none "1.prems"(1) "1.prems"(2) inv]
    obtain c where "pollLoop ps s T (now + int d + LOGIN_CHECK_INTERVAL) (Suc i) = TimedOut c"
      and "now + int d + LOGIN_CHECK_INTERVAL \<le> c" and "T \<le> c - s"
      and "c - s < T + LOGIN_CHECK_INTERVAL + int D"
      by blast
    with step show ?thesis by (auto simp: LOGIN_CHECK_INTERVAL_def)
  qed
qed

lemma probeLoop_quiet:
  assumes "\<forall>i h. snd (ps i) = ProbeResponse h \<longrightarrow> extractCookie h = None"
    and "\<forall>i. fst (ps i) \<le> D"
    and "now - s < T + LOGIN_CHECK_INTERVAL + int D"
  shows "\<exists>c. probeLoop ps s T now i = TimedOut c \<and> now \<le> c \<and> T \<le> c - s
             \<and> c - s < T + LOGIN_CHECK_INTERVAL + int D"
  using assms
proof (induction ps s T now i rule: probeLoop.induct)
  case (1 ps s T now i)
  show ?case
  proof (cases "now - s < T")
    case False
    with "1.prems"(3) show ?thesis by (simp add: probeLoop.simps [of ps s T now i])
  next
    case True
    obtain d r where psi: "ps i = (d, r)" by (cases "ps i")
    have none: "(case r of ProbeResponse h \<Rightarrow> extractCookie h | ProbeFails e \<Rightarrow> None) = None"
      using "1.prems"(1) psi by (cases r) (auto dest: spec [where x = i])
    from "1.prems"(2) psi have d: "d \<le> D" by (metis fst_conv)
    have step: "probeLoop ps s T now i
                  = probeLoop ps s T (now + int d + LOGIN_CHECK_INTERVAL) (Suc i)"
      using True psi none by (simp add: probeLoop.simps [of ps s T now i])
    have inv: "now + int d + LOGIN_CHECK_INTERVAL - s < T + LOGIN_CHECK_INTERVAL + int D"
      using True d by simp
    from "1.IH" [OF True psi [symmetric] none "1.prems"(1) "1.prems"(2) inv]
    obtain c where "probeLoop ps s T (now + int d + LOGIN_CHECK_INTERVAL) (Suc i) = TimedOut c"
      and "now + int d + LOGIN_CHECK_INTERVAL \<le> c" and "T \<le> c - s"
      and "c - s < T + LOGIN_CHECK_INTERVAL + int D"
      by blast
    with step show ?thesis by (auto simp: LOGIN_CHECK_INTERVAL_def)
  qed
qed

lemma closeTime_nonneg: "0 \<le> closeTime ls env"
  by (simp add: closeTime_def split: option.splits)

text \<open>C8 (amended): with a timeout \<open>T \<ge> 0\<close>, when no token arrives (and, on the scriptable
  path, no read of the cookie jar fails) and every iteration's awaits take at most \<open>D\<close> ms
  beyond the interval timer, \<open>waitForLogin\<close> rejects with the login timeout. On the
  scriptable path it does so at least \<open>T\<close> ms and less than \<open>T + 3000 + D\<close> ms plus the
  time of closing the browser after it is entered. On the probe path it does so at least
  \<open>T\<close> ms and less than \<open>T + 3000 + D\<close> ms after the loop's start time is read, which
  is 5000 ms plus the lateness of the grace timer after \<open>waitForLogin\<close> is entered.\<close>

theorem waitForLogin_timeout_bound:
  assumes "0 \<le> T"
  shows "(page ls \<noteq> None
            \<and> (\<forall>i. \<exists>cs. snd (polls env i) = Cookies cs \<and> sessionCookieOf cs = None)
            \<and> (\<forall>i. fst (polls env i) \<le> D)
          \<longrightarrow> (\<exists>ls' ev c. waitForLogin ls env T entry = (Throws loginTimeout, ls', ev, c)
                  \<and> T + closeTime ls env \<le> c - entry
                  \<and> c - entry < T + LOGIN_CHECK_INTERVAL + int D + closeTime ls env))
       \<and> (page ls = None
            \<and> (\<forall>i h. snd (probes env i) = ProbeResponse h \<longrightarrow> extractCookie h = None)
            \<and> (\<forall>i. fst (probes env i) \<le> D)
          \<longrightarrow> (\<exists>ls' ev c. waitForLogin ls env T entry = (Throws loginTimeout, ls', ev, c)
                  \<and> T + 5000 + int (graceDelay env) \<le> c - entry
                  \<and> c - entry < T + LOGIN_CHECK_INTERVAL + int D + 5000 + int (graceDelay env)))"
proof (intro conjI impI)
  assume a: "page ls \<noteq> None
            \<and> (\<forall>i. \<exists>cs. snd (polls env i) = Cookies cs \<and> sessionCookieOf cs = None)
            \<and> (\<forall>i. fst (polls env i) \<le> D)"
  then obtain p where p: "page ls = Some p" by auto
  have "entry - entry < T + LOGIN_CHECK_INTERVAL + int D"
    using assms by (simp add: LOGIN_CHECK_INTERVAL_def)
  with a pollLoop_quiet [of "polls env" D entry entry T 0]
  obtain c where loop: "pollLoop (polls env) entry T entry 0 = TimedOut c"
    and lo: "T \<le> c - entry"
    and hi: "c - entry < T + LOGIN_CHECK_INTERVAL + int D"
    by blast
  from p loop have "\<exists>ls' ev. waitForLogin ls env T entry
                      = (Throws loginTimeout, ls', ev, c + closeTime ls env)"
    by (simp only: waitForLogin_def option.case loop_exit.case split: prod.splits) simp
  with lo hi show "\<exists>ls' ev c. waitForLogin ls env T entry = (Throws loginTimeout, ls', ev, c)
                  \<and> T + closeTime ls env \<le> c - entry
                  \<and> c - entry < T + LOGIN_CHECK_INTERVAL + int D + closeTime ls env"
    by auto
next
  assume a: "page ls = None
            \<and> (\<forall>i h. snd (probes env i) = ProbeResponse h \<longrightarrow> extractCookie h = None)
            \<and> (\<forall>i. fst (probes env i) \<le> D)"
  let ?s = "entry + 5000 + int (graceDelay env)"
  have "?s - ?s < T + LOGIN_CHECK_INTERVAL + int D"
    using assms by (simp add: LOGIN_CHECK_INTERVAL_def)
  with a probeLoop_quiet [of "probes env" D ?s ?s T 0]
  obtain c where loop: "probeLoop (probes env) ?s T ?s 0 = TimedOut c"
    and lo: "T \<le> c - ?s"
    and hi: "c - ?s < T + LOGIN_CHECK_INTERVAL + int D"
    by blast
  from a loop have "waitForLogin ls env T entry = (Throws loginTimeout, ls, [], c)"
    by (simp only: waitForLogin_def waitForCookieFromApiWithPrompt_def Let_def
          option.case loop_exit.case prod.case)
  with lo hi show "\<exists>ls' ev c. waitForLogin ls env T entry = (Throws loginTimeout, ls', ev, c)
                  \<and> T + 5000 + int (graceDelay env) \<le> c - entry
                  \<and> c - entry < T + LOGIN_CHECK_INTERVAL + int D + 5000 + int (graceDelay env)"
    by auto
qed

text \<open>With the default timeout, 76 ms per iteration beyond the timer, 500 ms to close the
  browser and a grace timer 3 ms late: both paths time out within their bounds.\<close>

theorem waitForLogin_timeout_bound_witness:
  "(0::int) \<le> 120000
   \<and> (\<exists>ls' ev c. waitForLogin \<lparr>browser = Some 1, page = Some 2\<rparr> slowEnv 120000 0
                     = (Throws loginTimeout, ls', ev, c)
                   \<and> 120000 + 500 \<le> c \<and> c < 120000 + 3000 + 76 + 500)
   \<and> (\<exists>ls' ev c. waitForLogin noBrowser slowEnv 120000 0 = (Throws loginTimeout, ls', ev, c)
                   \<and> 120000 + 5000 + 3 \<le> c \<and> c < 120000 + 3000 + 76 + 5000 + 3)"
  using waitForLogin_timeout_bound [where T = 120000 and D = 76 and entry = 0
      and ls = "\<lparr>browser = Some 1, page = Some 2\<rparr>" and env = slowEnv]
    waitForLogin_timeout_bound [where T = 120000 and D = 76 and entry = 0
      and ls = noBrowser and env = slowEnv]
  by (simp add: slowEnv_def noBrowser_def sessionCookieOf_def closeTime_def
      LOGIN_CHECK_INTERVAL_def)

text \<open>C8 as stated fails on the probe path: with the default timeout, no token and awaits
  that take no time beyond their timers, the timeout is signalled 125000 ms after
  \<open>waitForLogin\<close> is entered, later than the timeout plus one polling interval.\<close>

theorem fallback_timeout_exceeds_bound:
  "waitForLogin noBrowser quietEnv 120000 0 = (Throws loginTimeout, noBrowser, [], 125000)
   \<and> \<not> ((125000::int) \<le> 120000 + LOGIN_CHECK_INTERVAL)"
  by (simp add: waitForLogin_def waitForCookieFromApiWithPrompt_def noBrowser_def quietEnv_def
      probeLoop.simps extractCookie_def LOGIN_CHECK_INTERVAL_def Let_def)

section \<open>The auto-login handler\<close>

lemma waitForCookie_not_null: "fst (waitForCookieFromApiWithPrompt env T entry) \<noteq> Returns None"
  by (simp add: waitForCookieFromApiWithPrompt_def Let_def split: loop_exit.splits)

lemma waitForLogin_fallback:
  "page ls = None \<Longrightarrow>
   waitForLogin ls env T entry
     = (fst (waitForCookieFromApiWithPrompt env T entry), ls, [],
        snd (waitForCookieFromApiWithPrompt env T entry))"
  by (simp add: waitForLogin_def split: prod.splits)

lemma waitForLogin_scriptable:
  assumes "page ls = Some p"
  shows "fst (waitForLogin ls env T entry) \<noteq> Returns None
       \<and> fst (waitForLogin ls env T entry) \<noteq> Returns (Some [])"
proof (cases "pollLoop (polls env) entry T entry 0")
  case (Found v c)
  then have "v \<noteq> []" by (rule pollLoop_Found_nonempty)
  with Found assms show ?thesis by (simp add: waitForLogin_def split: prod.splits)
next
  case (TimedOut c)
  with assms show ?thesis by (simp add: waitForLogin_def split: prod.splits)
next
  case (Failed e c)
  with assms show ?thesis by (simp add: waitForLogin_def)
qed

lemma waitForLogin_timeout_throws:
  "(page ls \<noteq> None \<and> (\<exists>c. pollLoop (polls env) entry T entry 0 = TimedOut c)
      \<longrightarrow> fst (waitForLogin ls env T entry) = Throws loginTimeout)
   \<and> (page ls = None
        \<and> (\<exists>c. probeLoop (probes env) (entry + 5000 + int (graceDelay env)) T
                  (entry + 5000 + int (graceDelay env)) 0 = TimedOut c)
      \<longrightarrow> fst (waitForLogin ls env T entry) = Throws loginTimeout)"
proof (intro conjI impI)
  assume "page ls \<noteq> None \<and> (\<exists>c. pollLoop (polls env) entry T entry 0 = TimedOut c)"
  then obtain p c where "page ls = Some p" "pollLoop (polls env) entry T entry 0 = TimedOut c"
    by auto
  then show "fst (waitForLogin ls env T entry) = Throws loginTimeout"
    by (simp only: waitForLogin_def option.case loop_exit.case split: prod.splits) simp
next
  assume "page ls = None
        \<and> (\<exists>c. probeLoop (probes env) (entry + 5000 + int (graceDelay env)) T
                  (entry + 5000 + int (graceDelay env)) 0 = TimedOut c)"
  then obtain c where "page ls = None"
    "probeLoop (probes env) (entry + 5000 + int (graceDelay env)) T
                  (entry + 5000 + int (graceDelay env)) 0 = TimedOut c"
    by auto
  then show "fst (waitForLogin ls env T entry) = Throws loginTimeout"
    by (simp only: waitForLogin_def waitForCookieFromApiWithPrompt_def Let_def
          option.case loop_exit.case prod.case fst_conv)
qed

lemma auto_login_fallback:
  assumes "startLogin \<lparr>browser = None, page = None\<rparr> env = (Inr u, ls1, ev1)"
    and "page ls1 = None"
  shows "fst (iconfont_auto_login svc env entry) = TimeoutText
         \<longleftrightarrow> fst (waitForCookieFromApiWithPrompt env 120000 entry) = Returns (Some [])"
proof (cases "fst (waitForCookieFromApiWithPrompt env 120000 entry)")
  case (Returns c)
  with waitForCookie_not_null [of env 120000 entry] obtain v where "c = Some v" by (cases c) auto
  with Returns assms show ?thesis
    by (simp add: iconfont_auto_login_def waitForLogin_fallback Let_def)
next
  case (Throws e)
  with assms show ?thesis
    by (simp add: iconfont_auto_login_def waitForLogin_fallback split: prod.splits)
qed

lemma auto_login_scriptable:
  assumes "startLogin \<lparr>browser = None, page = None\<rparr> env = (Inr u, ls1, ev1)"
    and "page ls1 = Some p"
  shows "fst (iconfont_auto_login svc env entry) \<noteq> TimeoutText"
proof (cases "waitForLogin ls1 env 120000 entry")
  case (fields r ls2 ev2 clk)
  with waitForLogin_scriptable [OF assms(2), of env 120000 entry]
  have r: "r \<noteq> Returns None" "r \<noteq> Returns (Some [])" by simp_all
  show ?thesis
  proof (cases r)
    case (Returns c)
    with r obtain v where "c = Some v" "v \<noteq> []" by (cases c) auto
    with Returns fields assms show ?thesis by (simp add: iconfont_auto_login_def Let_def)
  next
    case (Throws e)
    with fields assms show ?thesis by (simp add: iconfont_auto_login_def split: prod.splits)
  qed
qed

lemma auto_login_start_failed:
  assumes "startLogin \<lparr>browser = None, page = None\<rparr> env = (Inl e, ls1, ev1)"
  shows "fst (iconfont_auto_login svc env entry) \<noteq> TimeoutText"
  using assms by (simp add: iconfont_auto_login_def split: prod.splits)

text \<open>\<open>waitForLogin\<close> never fulfils with \<open>null\<close>, and on the scriptable path never with
  the empty string; when a polling loop times out it rejects with the login timeout. The
  handler's \<open>else\<close> branch runs exactly when no page was acquired, the system browser opened
  and the probe path fulfilled with the empty string.\<close>

lemma waitForLogin_never_null:
  "fst (waitForLogin ls env T entry) \<noteq> Returns None
   \<and> (page ls \<noteq> None \<longrightarrow> fst (waitForLogin ls env T entry) \<noteq> Returns (Some []))
   \<and> (page ls \<noteq> None \<and> (\<exists>c. pollLoop (polls env) entry T entry 0 = TimedOut c)
        \<longrightarrow> fst (waitForLogin ls env T entry) = Throws loginTimeout)
   \<and> (page ls = None
          \<and> (\<exists>c. probeLoop (probes env) (entry + 5000 + int (graceDelay env)) T
                    (entry + 5000 + int (graceDelay env)) 0 = TimedOut c)
        \<longrightarrow> fst (waitForLogin ls env T entry) = Throws loginTimeout)
   \<and> (fst (iconfont_auto_login svc env entry) = TimeoutText
        \<longleftrightarrow> (launch env = None \<or> newPage env = None) \<and> openOk env
            \<and> fst (waitForCookieFromApiWithPrompt env 120000 entry) = Returns (Some []))"
proof (intro conjI)
  show "fst (waitForLogin ls env T entry) \<noteq> Returns None"
  proof (cases "page ls")
    case None
    then show ?thesis by (simp add: waitForLogin_fallback waitForCookie_not_null)
  next
    case (Some p)
    then show ?thesis by (simp add: waitForLogin_scriptable)
  qed
next
  show "page ls \<noteq> None \<longrightarrow> fst (waitForLogin ls env T entry) \<noteq> Returns (Some [])"
    using waitForLogin_scriptable by auto
next
  show "page ls \<noteq> None \<and> (\<exists>c. pollLoop (polls env) entry T entry 0 = TimedOut c)
        \<longrightarrow> fst (waitForLogin ls env T entry) = Throws loginTimeout"
    using waitForLogin_timeout_throws by blast
next
  show "page ls = None
          \<and> (\<exists>c. probeLoop (probes env) (entry + 5000 + int (graceDelay env)) T
                    (entry + 5000 + int (graceDelay env)) 0 = TimedOut c)
        \<longrightarrow> fst (waitForLogin ls env T entry) = Throws loginTimeout"
    using waitForLogin_timeout_throws by blast
next
  show "fst (iconfont_auto_login svc env entry) = TimeoutText
        \<longleftrightarrow> (launch env = None \<or> newPage env = None) \<and> openOk env
            \<and> fst (waitForCookieFromApiWithPrompt env 120000 entry) = Returns (Some [])"
  proof (cases "launch env")
    case None
    show ?thesis
    proof (cases "openOk env")
      case True
      with None have "startLogin \<lparr>browser = None, page = None\<rparr> env
                        = (Inr (), \<lparr>browser = None, page = None\<rparr>, [])"
        by (simp add: startLogin_def openBrowserWithSystem_def)
      from auto_login_fallback [OF this] None True show ?thesis by simp
    next
      case False
      with None have "startLogin \<lparr>browser = None, page = None\<rparr> env
                        = (openBrowserWithSystem env, \<lparr>browser = None, page = None\<rparr>, [])"
          and "\<exists>e. openBrowserWithSystem env = Inl e"
        by (simp_all add: startLogin_def openBrowserWithSystem_def)
      with auto_login_start_failed False show ?thesis by metis
    qed
  next
    case (Some b)
    show ?thesis
    proof (cases "newPage env")
      case None
      show ?thesis
      proof (cases "openOk env")
        case True
        with Some None have "startLogin \<lparr>browser = None, page = None\<rparr> env
                        = (Inr (), \<lparr>browser = Some b, page = None\<rparr>, [Launched b])"
          by (simp add: startLogin_def openBrowserWithSystem_def)
        from auto_login_fallback [OF this] None True show ?thesis by simp
      next
        case False
        with Some None have "startLogin \<lparr>browser = None, page = None\<rparr> env
              = (openBrowserWithSystem env, \<lparr>browser = Some b, page = None\<rparr>, [Launched b])"
          and "\<exists>e. openBrowserWithSystem env = Inl e"
          by (simp_all add: startLogin_def openBrowserWithSystem_def)
        with auto_login_start_failed False show ?thesis by metis
      qed
    next
      case p: (Some p)
      have "\<exists>r. startLogin \<lparr>browser = None, page = None\<rparr> env
                  = (r, \<lparr>browser = Some b, page = Some p\<rparr>, [Launched b])"
        using Some p by (simp add: startLogin_def Let_def)
      then obtain r where st: "startLogin \<lparr>browser = None, page = None\<rparr> env
                  = (r, \<lparr>browser = Some b, page = Some p\<rparr>, [Launched b])" ..
      have "fst (iconfont_auto_login svc env entry) \<noteq> TimeoutText"
      proof (cases r)
        case (Inl e)
        with st auto_login_start_failed show ?thesis by metis
      next
        case (Inr u)
        with st auto_login_scriptable [of env u "\<lparr>browser = Some b, page = Some p\<rparr>" "[Launched b]" p]
        show ?thesis by simp
      qed
      with Some p show ?thesis by simp
    qed
  qed
qed

text \<open>C10: the claim that \<open>waitForLogin\<close> never fulfils with \<open>null\<close>, so that the
  handler's \<open>else\<close> branch, which reports the timeout text as a result, is unreachable. It
  never fulfils with \<open>null\<close>, and the scriptable path skips a session cookie with an empty
  value; the probe path has no such check. When the first probe's response sets the session
  cookie to the empty value, \<open>waitForLogin\<close> fulfils with the empty string 5000 ms after it
  is entered, and the handler takes its \<open>else\<close> branch and answers with the timeout text.\<close>

theorem empty_cookie_reaches_else_branch:
  "waitForLogin noBrowser emptyCookieEnv 120000 0 = (Returns (Some []), noBrowser, [], 5000)
   \<and> fst (iconfont_auto_login (constructor None None) emptyCookieEnv 0) = TimeoutText
   \<and> sessionCookieOf [(''EGG_SESS_ICONFONT'', [])] = None"
  by (simp add: iconfont_auto_login_def startLogin_def openBrowserWithSystem_def
      waitForLogin_def waitForCookieFromApiWithPrompt_def noBrowser_def emptyCookieEnv_def
      probeLoop.simps extractCookie_def startsWith_def trim_def isSpace_def
      sessionCookieOf_def Let_def)

end
